theory Spec2Isabelle
  imports Complex_Main "HOL-Library.Multiset"
begin

section \<open>Data model\<close>

text \<open>
  Go strings are byte sequences, modelled as \<open>string\<close>.  The three flag types
  \<open>RunState\<close>, \<open>ScheduleState\<close> and \<open>Parallelism\<close> are declared in the source as
  \<^verbatim>\<open>type RunState string\<close> and so on: they are strings, with named constants for the
  defined variants, and the empty string is the value of a flag that was never set.
\<close>

type_synonym RunState = string
type_synonym ScheduleState = string
type_synonym Parallelism = string
type_synonym ScheduleSortBy = string

definition NotStarted :: RunState where "NotStarted = ''NOT_STARTED''"
definition Running :: RunState where "Running = ''RUNNING''"
definition Error :: RunState where "Error = ''ERROR''"
definition Done :: RunState where "Done = ''DONE''"
definition Paused :: RunState where "Paused = ''PAUSED''"
definition Aborted :: RunState where "Aborted = ''ABORTED''"
definition Deleted :: RunState where "Deleted = ''DELETED''"

definition SActive :: ScheduleState where "SActive = ''ACTIVE''"
definition SPaused :: ScheduleState where "SPaused = ''PAUSED''"
definition SDeleted :: ScheduleState where "SDeleted = ''DELETED''"

definition Sequential :: Parallelism where "Sequential = ''SEQUENTIAL''"
definition Parallel :: Parallelism where "Parallel = ''PARALLEL''"
definition DatacenterAware :: Parallelism where "DatacenterAware = ''DATACENTER_AWARE''"

definition ScheduleSortByNextActivation :: ScheduleSortBy where
  "ScheduleSortByNextActivation = ''next-activation''"

text \<open>The defined variants of each type, in the order of the \<^verbatim>\<open>const\<close> blocks.\<close>

definition runStates :: "RunState list" where
  "runStates = [NotStarted, Running, Error, Done, Paused, Aborted, Deleted]"

definition scheduleStates :: "ScheduleState list" where
  "scheduleStates = [SActive, SPaused, SDeleted]"

definition parallelisms :: "Parallelism list" where
  "parallelisms = [Sequential, Parallel, DatacenterAware]"

text \<open>
  \<^verbatim>\<open>String()\<close> of the three types is the conversion back to \<^verbatim>\<open>string\<close>.
\<close>

definition RunState_String :: "RunState \<Rightarrow> string" where "RunState_String s = s"
definition ScheduleState_String :: "ScheduleState \<Rightarrow> string" where "ScheduleState_String s = s"
definition Parallelism_String :: "Parallelism \<Rightarrow> string" where "Parallelism_String p = p"

text \<open>
  A \<^verbatim>\<open>time.Time\<close> is an instant; it is modelled by the number of nanoseconds since
  January 1, year 1, 00:00:00 UTC, which is Go's zero time.  A \<^verbatim>\<open>*time.Time\<close> is an
  optional instant, \<open>None\<close> being the nil pointer.
\<close>

type_synonym Time = int

definition IsZero :: "Time \<Rightarrow> bool" where "IsZero t = (t = 0)"
definition Before :: "Time \<Rightarrow> Time \<Rightarrow> bool" where "Before t u = (t < u)"
definition After :: "Time \<Rightarrow> Time \<Rightarrow> bool" where "After t u = (t > u)"

record RepairRun =
  ID :: int
  Owner :: string
  ClusterName :: string
  KeyspaceName :: string
  State :: RunState
  Cause :: string
  ColumnFamilies :: "string list"
  Intensity :: real
  TotalSegments :: int
  SegmentsRepaired :: int
  LastEvent :: string
  Duration :: string
  CreationTime :: "Time option"
  StartTime :: "Time option"
  EndTime :: "Time option"
  PauseTime :: "Time option"

record RepairSchedule =
  sID :: string
  sOwner :: string
  sClusterName :: string
  sKeyspaceName :: string
  sState :: ScheduleState
  sColumnFamilies :: "string list"
  sIntensity :: real
  sIncrementalRepair :: bool
  sRepairParallelism :: Parallelism
  sScheduledDaysBetween :: int
  sSegmentCount :: int
  sCreationTime :: "Time option"
  sPauseTime :: "Time option"
  sNextActivation :: "Time option"

record Cluster =
  Name :: string
  SeedHosts :: "string list"
  RepairRuns :: "RepairRun list"
  RepairSchedules :: "RepairSchedule list"

section \<open>The column-family overlap test\<close>

text \<open>
  \<^verbatim>\<open>contains(a, b)\<close> of main.go: the first loop enters every element of \<open>a\<close> into a
  map used as a set, the second returns true at the first element of \<open>b\<close> found there.
\<close>

fun contains_fill :: "(string \<rightharpoonup> unit) \<Rightarrow> string list \<Rightarrow> (string \<rightharpoonup> unit)" where
  "contains_fill m [] = m"
| "contains_fill m (el # a) = contains_fill (m(el \<mapsto> ())) a"

fun contains_probe :: "(string \<rightharpoonup> unit) \<Rightarrow> string list \<Rightarrow> bool" where
  "contains_probe m [] = False"
| "contains_probe m (el # b) = (case m el of Some _ \<Rightarrow> True | None \<Rightarrow> contains_probe m b)"

definition contains :: "string list \<Rightarrow> string list \<Rightarrow> bool" where
  "contains a b = contains_probe (contains_fill Map.empty a) b"

text \<open>
  The parameters of \<^verbatim>\<open>printCluster\<close> (cluster.go) and the test it makes for each run and
  each schedule of the cluster: a \<^verbatim>\<open>continue\<close> is the value \<open>False\<close>.
\<close>

record printClusterParams =
  ShowRuns :: bool
  ShowSchedules :: bool
  FilterCFs :: "string list"
  FilterRunState :: RunState
  FilterScheduleState :: ScheduleState

definition printCluster_run_shown :: "printClusterParams \<Rightarrow> RepairRun \<Rightarrow> bool" where
  "printCluster_run_shown params run =
     (if length (FilterCFs params) > 0 \<and> \<not> contains (ColumnFamilies run) (FilterCFs params)
      then False
      else if FilterRunState params \<noteq> [] \<and> State run \<noteq> FilterRunState params
      then False
      else True)"

definition printCluster_schedule_shown :: "printClusterParams \<Rightarrow> RepairSchedule \<Rightarrow> bool" where
  "printCluster_schedule_shown params sc =
     (if length (FilterCFs params) > 0 \<and> \<not> contains (sColumnFamilies sc) (FilterCFs params)
      then False
      else if FilterScheduleState params \<noteq> [] \<and> sState sc \<noteq> FilterScheduleState params
      then False
      else True)"

section \<open>Package errors\<close>

text \<open>
  Text built at run time.  Package \<^verbatim>\<open>fmt\<close> is not modelled: the result of
  \<^verbatim>\<open>fmt.Sprintf\<close> is kept as the format together with its arguments.
\<close>

datatype fmt_arg =
    ArgString string
  | ArgInt int
  | ArgRun RepairRun
  | ArgSchedule RepairSchedule

datatype message = Lit string | Sprintf string "fmt_arg list"

datatype Kind = Other | Invalid | IO

text \<open>
  The ways in which \<^verbatim>\<open>time.Parse\<close> fails on the layout of this program: the value
  does not follow the layout, text is left over after the layout has been consumed, or a
  field is out of range.
\<close>

datatype parse_failure = Malformed | ExtraText string | OutOfRange string

text \<open>
  An \<^verbatim>\<open>error\<close> value: \<^verbatim>\<open>*errorString\<close> and \<^verbatim>\<open>*Error\<close> of package errors, the
  \<^verbatim>\<open>*time.ParseError\<close> of the standard library (layout, value, failure), and any other
  error that a library hands back (transport, JSON decoding, flag parsing), which is
  opaque to the program.
\<close>

datatype error =
    errorString message
  | errors_Error Kind string error
  | ParseError string string parse_failure
  | LibraryError string

definition E :: "Kind \<Rightarrow> string \<Rightarrow> error \<Rightarrow> error" where
  "E kind op err = errors_Error kind op err"

definition Str :: "string \<Rightarrow> error" where
  "Str s = errorString (Lit s)"

definition Errorf :: "string \<Rightarrow> fmt_arg list \<Rightarrow> error" where
  "Errorf format args = errorString (Sprintf format args)"

section \<open>Case-insensitive comparison\<close>

text \<open>
  \<^verbatim>\<open>strings.EqualFold\<close> belongs to the Go standard library.  It compares two strings
  rune by rune under Unicode simple case folding; a byte that does not start a valid
  UTF-8 sequence counts as the rune U+FFFD of width one.
\<close>

type_synonym rune = nat

definition RuneError :: rune where "RuneError = 0xFFFD"

text \<open>
  \<^verbatim>\<open>utf8.DecodeRuneInString\<close>: the first rune of a non-empty byte sequence and its width.
  The lead byte fixes the size of the sequence and the range accepted for the second
  byte; every further byte is a continuation byte.
\<close>

definition DecodeRune :: "nat list \<Rightarrow> rune \<times> nat" where
  "DecodeRune s =
     (case s of
        [] \<Rightarrow> (RuneError, 0)
      | s0 # rest \<Rightarrow>
        if s0 < 0x80 then (s0, 1)
        else if s0 < 0xC2 \<or> 0xF5 \<le> s0 then (RuneError, 1)
        else
          let sz = (if s0 < 0xE0 then 2 else if s0 < 0xF0 then 3 else (4::nat));
              lo = (if s0 = 0xE0 then 0xA0 else if s0 = 0xF0 then 0x90 else (0x80::nat));
              hi = (if s0 = 0xED then 0x9F else if s0 = 0xF4 then 0x8F else (0xBF::nat))
          in
            if Suc (length rest) < sz then (RuneError, 1)
            else
              let s1 = rest ! 0 in
              if s1 < lo \<or> hi < s1 then (RuneError, 1)
              else if sz \<le> 2 then ((s0 mod 0x20) * 0x40 + s1 mod 0x40, 2)
              else
                let s2 = rest ! 1 in
                if s2 < 0x80 \<or> 0xBF < s2 then (RuneError, 1)
                else if sz \<le> 3 then
                  ((s0 mod 0x10) * 0x1000 + (s1 mod 0x40) * 0x40 + s2 mod 0x40, 3)
                else
                  let s3 = rest ! 2 in
                  if s3 < 0x80 \<or> 0xBF < s3 then (RuneError, 1)
                  else ((s0 mod 8) * 0x40000 + (s1 mod 0x40) * 0x1000
                          + (s2 mod 0x40) * 0x40 + s3 mod 0x40, 4))"

text \<open>The runes of a byte sequence, as a \<^verbatim>\<open>range\<close> loop over a string yields them.\<close>

fun runes :: "nat list \<Rightarrow> rune list" where
  "runes [] = []"
| "runes (b # bs) = fst (DecodeRune (b # bs)) # runes (drop (snd (DecodeRune (b # bs)) - 1) bs)"

text \<open>
  Two runes are equal under simple folding when they are equal or lie on one orbit of
  \<^verbatim>\<open>unicode.SimpleFold\<close>.  For two ASCII runes that is an upper-case letter and its
  lower-case form.  The orbits of the ASCII letters hold two runes beyond ASCII: the
  Kelvin sign U+212A with K and k, and the long s U+017F with S and s.  Orbits without
  an ASCII letter are not modelled; the comparison is exact whenever one of the two
  strings is ASCII, which holds for every call in this program.
\<close>

definition foldEq :: "rune \<Rightarrow> rune \<Rightarrow> bool" where
  "foldEq sr tr =
     (if tr = sr then True
      else
        let lo = min sr tr; hi = max sr tr in
        if hi < 0x80 then 0x41 \<le> lo \<and> lo \<le> 0x5A \<and> hi = lo + 0x20
        else (hi = 0x212A \<and> (lo = 0x4B \<or> lo = 0x6B))
           \<or> (hi = 0x17F \<and> (lo = 0x53 \<or> lo = 0x73)))"

definition bytes :: "string \<Rightarrow> nat list" where
  "bytes s = map of_char s"

definition EqualFold :: "string \<Rightarrow> string \<Rightarrow> bool" where
  "EqualFold s t = list_all2 foldEq (runes (bytes s)) (runes (bytes t))"

section \<open>The enum-like flag types\<close>

text \<open>
  The \<^verbatim>\<open>Set\<close> methods have a pointer receiver.  The model takes the value stored
  before the call and returns the value stored after it together with the error returned
  (\<open>None\<close> for nil).
\<close>

definition RunState_Set :: "RunState \<Rightarrow> string \<Rightarrow> RunState \<times> error option" where
  "RunState_Set s str =
     (if EqualFold str ''not_started'' then (NotStarted, None)
      else if EqualFold str ''running'' then (Running, None)
      else if EqualFold str ''error'' then (Error, None)
      else if EqualFold str ''done'' then (Done, None)
      else if EqualFold str ''paused'' then (Paused, None)
      else if EqualFold str ''aborted'' then (Aborted, None)
      else if EqualFold str ''deleted'' then (Deleted, None)
      else (s, Some (Errorf ''invalid state %q'' [ArgString str])))"

definition ScheduleState_Set :: "ScheduleState \<Rightarrow> string \<Rightarrow> ScheduleState \<times> error option" where
  "ScheduleState_Set s str =
     (if EqualFold str ''active'' then (SActive, None)
      else if EqualFold str ''paused'' then (SPaused, None)
      else if EqualFold str ''deleted'' then (SDeleted, None)
      else (s, Some (Errorf ''invalid state %q'' [ArgString str])))"

definition Parallelism_Set :: "Parallelism \<Rightarrow> string \<Rightarrow> Parallelism \<times> error option" where
  "Parallelism_Set p s =
     (if EqualFold s ''sequential'' then (Sequential, None)
      else if EqualFold s ''parallel'' then (Parallel, None)
      else if EqualFold s ''datacenter_aware'' then (DatacenterAware, None)
      else (p, Some (Errorf ''invalid parallelism %q'' [ArgString s])))"

text \<open>\<^verbatim>\<open>ScheduleSortBy.Set\<close> stores any string and never fails.\<close>

definition ScheduleSortBy_Set :: "ScheduleSortBy \<Rightarrow> string \<Rightarrow> ScheduleSortBy \<times> error option" where
  "ScheduleSortBy_Set s str = (str, None)"

section \<open>The date flag\<close>

text \<open>
  \<^verbatim>\<open>myTime.Set\<close> calls \<^verbatim>\<open>time.Parse\<close> of the Go standard library with the layout
  \<^verbatim>\<open>2006-01-02\<close>.  The functions below follow package time for the three elements of
  this layout: a long year, a zero-padded month and a zero-padded day, with a hyphen
  between them.
\<close>

definition myTimeLayout :: string where "myTimeLayout = ''2006-01-02''"

definition isDigit :: "string \<Rightarrow> nat \<Rightarrow> bool" where
  "isDigit s i =
     (if length s \<le> i then False
      else (48::nat) \<le> of_char (s ! i) \<and> of_char (s ! i) \<le> (57::nat))"

definition digitVal :: "char \<Rightarrow> nat" where
  "digitVal c = of_char c - 48"

text \<open>\<^verbatim>\<open>leadingInt\<close>: the value of the longest prefix of digits, and the rest.\<close>

fun leadingInt :: "nat \<Rightarrow> string \<Rightarrow> nat \<times> string" where
  "leadingInt x [] = (x, [])"
| "leadingInt x (c # cs) =
     (if (48::nat) \<le> of_char c \<and> of_char c \<le> (57::nat)
      then leadingInt (x * 10 + digitVal c) cs
      else (x, c # cs))"

text \<open>\<^verbatim>\<open>atoi\<close>: an optional sign, then digits up to the end; \<open>None\<close> is \<^verbatim>\<open>errAtoi\<close>.\<close>

definition atoi :: "string \<Rightarrow> int option" where
  "atoi s =
     (let neg = (s \<noteq> [] \<and> hd s = CHR ''-'');
          s' = (if s \<noteq> [] \<and> (hd s = CHR ''-'' \<or> hd s = CHR ''+'') then tl s else s);
          (q, rem) = leadingInt 0 s'
      in if rem \<noteq> [] then None
         else Some (if neg then - int q else int q))"

text \<open>
  \<^verbatim>\<open>getnum(s, fixed)\<close>: a number of one or two digits; with \<open>fixed\<close> it must have two.
  \<open>None\<close> is \<^verbatim>\<open>errBad\<close>.
\<close>

definition getnum :: "string \<Rightarrow> bool \<Rightarrow> (nat \<times> string) option" where
  "getnum s fixed =
     (if \<not> isDigit s 0 then None
      else if \<not> isDigit s 1 then
        (if fixed then None else Some (digitVal (s ! 0), drop 1 s))
      else Some (digitVal (s ! 0) * 10 + digitVal (s ! 1), drop 2 s))"

text \<open>
  \<^verbatim>\<open>skip(value, prefix)\<close> for a prefix without spaces, which is all the layout has:
  the value must start with the prefix.
\<close>

fun skip :: "string \<Rightarrow> string \<Rightarrow> string option" where
  "skip val [] = Some val"
| "skip [] (p # prefix) = None"
| "skip (v # val) (p # prefix) = (if v \<noteq> p then None else skip val prefix)"

definition isLeap :: "int \<Rightarrow> bool" where
  "isLeap year = (year mod 4 = 0 \<and> (year mod 100 \<noteq> 0 \<or> year mod 400 = 0))"

definition daysBefore :: "nat list" where
  "daysBefore = [0, 31, 59, 90, 120, 151, 181, 212, 243, 273, 304, 334, 365]"

definition daysIn :: "nat \<Rightarrow> int \<Rightarrow> nat" where
  "daysIn m year =
     (if m = 2 \<and> isLeap year then 29
      else daysBefore ! m - daysBefore ! (m - 1))"

text \<open>
  \<^verbatim>\<open>time.Date(year, month, day, 0, 0, 0, 0, time.UTC)\<close> for a month in 1..12 and a day
  of that month: the days from January 1 of year 1, as nanoseconds.
\<close>

definition Date :: "int \<Rightarrow> nat \<Rightarrow> nat \<Rightarrow> Time" where
  "Date year month day =
     (let y = year - 1;
          d = 365 * y + y div 4 - y div 100 + y div 400
              + int (daysBefore ! (month - 1))
              + (if isLeap year \<and> 3 \<le> month then 1 else 0)
              + (int day - 1)
      in d * 86400 * 1000000000)"

text \<open>
  \<^verbatim>\<open>time.Parse(myTimeLayout, value)\<close>.  The year needs four characters of which the first
  is a digit, and \<^verbatim>\<open>atoi\<close> accepts them only if all four are digits.  The month is
  range-checked as soon as it is read, the day once the whole value has been consumed.
\<close>

definition Parse_myTimeLayout :: "string \<Rightarrow> error + Time" where
  "Parse_myTimeLayout val =
     (if length val < 4 \<or> \<not> isDigit val 0 then Inl (ParseError myTimeLayout val Malformed)
      else case atoi (take 4 val) of
        None \<Rightarrow> Inl (ParseError myTimeLayout val Malformed)
      | Some year \<Rightarrow>
        (case skip (drop 4 val) ''-'' of
          None \<Rightarrow> Inl (ParseError myTimeLayout val Malformed)
        | Some v1 \<Rightarrow>
          (case getnum v1 True of
            None \<Rightarrow> Inl (ParseError myTimeLayout val Malformed)
          | Some (month, v2) \<Rightarrow>
            if month \<le> 0 \<or> 12 < month
            then Inl (ParseError myTimeLayout val (OutOfRange ''month''))
            else
              (case skip v2 ''-'' of
                None \<Rightarrow> Inl (ParseError myTimeLayout val Malformed)
              | Some v3 \<Rightarrow>
                (case getnum v3 True of
                  None \<Rightarrow> Inl (ParseError myTimeLayout val Malformed)
                | Some (day, v4) \<Rightarrow>
                  if length v4 \<noteq> 0
                  then Inl (ParseError myTimeLayout val (ExtraText v4))
                  else if day < 1 \<or> day > daysIn month year
                  then Inl (ParseError myTimeLayout val (OutOfRange ''day''))
                  else Inr (Date year month day))))))"

text \<open>
  \<^verbatim>\<open>myTime\<close> embeds a \<^verbatim>\<open>time.Time\<close>.  \<^verbatim>\<open>Set\<close> assigns only when the parse succeeded:
  the model takes the stored value and returns the stored value and the error.
\<close>

type_synonym myTime = Time

definition myTime_Set :: "myTime \<Rightarrow> string \<Rightarrow> myTime \<times> error option" where
  "myTime_Set t s =
     (case Parse_myTimeLayout s of
        Inl err \<Rightarrow> (t, Some err)
      | Inr t2 \<Rightarrow> (t2, None))"

text \<open>
  The format as the specification words it: four digits, a hyphen, two digits, a
  hyphen, two digits, and nothing else; with the numbers these digits denote, and the
  condition that they name a day of the calendar.
\<close>

definition is_digit_char :: "char \<Rightarrow> bool" where
  "is_digit_char c = ((48::nat) \<le> of_char c \<and> of_char c \<le> (57::nat))"

fun is_YYYY_MM_DD :: "string \<Rightarrow> bool" where
  "is_YYYY_MM_DD [y1, y2, y3, y4, h1, m1, m2, h2, d1, d2] =
     (is_digit_char y1 \<and> is_digit_char y2 \<and> is_digit_char y3 \<and> is_digit_char y4
      \<and> h1 = CHR ''-'' \<and> is_digit_char m1 \<and> is_digit_char m2
      \<and> h2 = CHR ''-'' \<and> is_digit_char d1 \<and> is_digit_char d2)"
| "is_YYYY_MM_DD _ = False"

definition year_of :: "string \<Rightarrow> int" where
  "year_of s = int (digitVal (s ! 0) * 1000 + digitVal (s ! 1) * 100
                     + digitVal (s ! 2) * 10 + digitVal (s ! 3))"

definition month_of :: "string \<Rightarrow> nat" where
  "month_of s = digitVal (s ! 5) * 10 + digitVal (s ! 6)"

definition day_of :: "string \<Rightarrow> nat" where
  "day_of s = digitVal (s ! 8) * 10 + digitVal (s ! 9)"

definition calendar_date :: "int \<Rightarrow> nat \<Rightarrow> nat \<Rightarrow> bool" where
  "calendar_date year month day =
     (1 \<le> month \<and> month \<le> 12 \<and> 1 \<le> day \<and> day \<le> daysIn month year)"

section \<open>Sorting schedules\<close>

text \<open>
  The comparators of \<^verbatim>\<open>sortSchedules\<close> dereference the \<^verbatim>\<open>NextActivation\<close> pointers of
  both schedules: \<^verbatim>\<open>res[i].NextActivation.Before(*res[j].NextActivation)\<close>.  A nil
  pointer makes the program panic, which is the value \<open>None\<close>.
\<close>

definition NextActivation_Before :: "RepairSchedule \<Rightarrow> RepairSchedule \<Rightarrow> bool option" where
  "NextActivation_Before a b =
     (case sNextActivation a of
        None \<Rightarrow> None
      | Some t \<Rightarrow> (case sNextActivation b of None \<Rightarrow> None | Some u \<Rightarrow> Some (Before t u)))"

definition NextActivation_After :: "RepairSchedule \<Rightarrow> RepairSchedule \<Rightarrow> bool option" where
  "NextActivation_After a b =
     (case sNextActivation a of
        None \<Rightarrow> None
      | Some t \<Rightarrow> (case sNextActivation b of None \<Rightarrow> None | Some u \<Rightarrow> Some (After t u)))"

text \<open>
  \<^verbatim>\<open>sort.Slice\<close> belongs to the Go standard library and is a parameter of the model
  (the field \<open>sort_Slice\<close> of the environment below): it receives the slice and the
  \<^verbatim>\<open>less\<close> function, here on the elements rather than on their indices, and returns
  the slice as it stands after the call, or \<open>None\<close> when a comparison panics.

  The library documents what it requires and what it delivers.  \<^verbatim>\<open>less\<close> has to be a
  strict weak ordering of the elements: it answers for any two of them, no element is
  less than itself, and both \<^verbatim>\<open>less\<close> and its negation are transitive.  The slice then
  holds the same elements as before, and no element is less than one that stands before
  it.  The order of elements that compare equal is not fixed.
\<close>

definition strict_weak_ordering_on :: "'a set \<Rightarrow> ('a \<Rightarrow> 'a \<Rightarrow> bool option) \<Rightarrow> bool" where
  "strict_weak_ordering_on S lessf =
     ((\<forall>a \<in> S. \<forall>b \<in> S. lessf a b \<noteq> None)
      \<and> (\<forall>a \<in> S. lessf a a = Some False)
      \<and> (\<forall>a \<in> S. \<forall>b \<in> S. \<forall>c \<in> S.
            lessf a b = Some True \<and> lessf b c = Some True \<longrightarrow> lessf a c = Some True)
      \<and> (\<forall>a \<in> S. \<forall>b \<in> S. \<forall>c \<in> S.
            lessf a b = Some False \<and> lessf b c = Some False \<longrightarrow> lessf a c = Some False))"

definition sort_Slice_contract ::
  "('a list \<Rightarrow> ('a \<Rightarrow> 'a \<Rightarrow> bool option) \<Rightarrow> 'a list option) \<Rightarrow> bool" where
  "sort_Slice_contract srt =
     (\<forall>x lessf. strict_weak_ordering_on (set x) lessf \<longrightarrow>
        (\<exists>zs. srt x lessf = Some zs \<and> mset zs = mset x
              \<and> sorted_wrt (\<lambda>a b. lessf b a = Some False) zs))"

text \<open>
  One sorting procedure that keeps this contract, for use in examples: insertion sort,
  \<^verbatim>\<open>for i := a+1; i < b; i++ { for j := i; j > a && less(j, j-1); j-- { swap(j, j-1) } }\<close>.
  The inner loop moves the element \<open>x\<close> to the left through the part already sorted,
  which is kept in reverse (the neighbour of \<open>x\<close> first).
\<close>

fun insertionSort_inner :: "('a \<Rightarrow> 'a \<Rightarrow> bool option) \<Rightarrow> 'a \<Rightarrow> 'a list \<Rightarrow> 'a list option" where
  "insertionSort_inner lessf x [] = Some [x]"
| "insertionSort_inner lessf x (y # ys) =
     (case lessf x y of
        None \<Rightarrow> None
      | Some True \<Rightarrow> map_option ((#) y) (insertionSort_inner lessf x ys)
      | Some False \<Rightarrow> Some (x # y # ys))"

fun insertionSort_outer ::
  "('a \<Rightarrow> 'a \<Rightarrow> bool option) \<Rightarrow> 'a list \<Rightarrow> 'a list \<Rightarrow> 'a list option" where
  "insertionSort_outer lessf sorted_rev [] = Some (rev sorted_rev)"
| "insertionSort_outer lessf sorted_rev (x # xs) =
     (case insertionSort_inner lessf x sorted_rev of
        None \<Rightarrow> None
      | Some sorted_rev' \<Rightarrow> insertionSort_outer lessf sorted_rev' xs)"

definition insertionSort :: "'a list \<Rightarrow> ('a \<Rightarrow> 'a \<Rightarrow> bool option) \<Rightarrow> 'a list option" where
  "insertionSort x lessf = insertionSort_outer lessf [] x"

section \<open>The outside world\<close>

text \<open>
  What a subcommand does besides returning: the HTTP requests it sends and the text it
  writes, in order.  \<^verbatim>\<open>color.Yellow\<close> takes a format and arguments like
  \<^verbatim>\<open>fmt.Printf\<close>.
\<close>

datatype event =
    HTTPRequest string string
  | Println string
  | Printf string "fmt_arg list"
  | Yellow string "fmt_arg list"

text \<open>
  A subcommand returns an error or nil (\<open>Return\<close>), unless the program panics first.
\<close>

datatype outcome = Return "error option" | Panic

type_synonym result = "event list \<times> outcome"

record response =
  StatusCode :: int
  Body :: string

text \<open>
  The flag variables of the subcommands after \<^verbatim>\<open>fs.Parse\<close>; every subcommand reads the
  ones it declares.  The source names the identifier flag \<^verbatim>\<open>flID\<close> in both families of
  subcommands: it is an integer for repairs and a string for schedules
  (\<open>flScheduleID\<close> here).  \<open>Args\<close> are the arguments left after the flags.
\<close>

record flags =
  flShowRuns :: bool
  flShowSchedules :: bool
  flCFs :: "string list"
  flRunState :: RunState
  flScheduleState :: ScheduleState
  flSeed :: string
  flCluster :: string
  flKeyspace :: string
  flTables :: "string list"
  flOwner :: string
  flCause :: string
  flStartAfter :: myTime
  flStartBefore :: myTime
  flID :: int
  flScheduleID :: string
  flSegments :: int
  flPar :: Parallelism
  flIntensity :: real
  flIncrementalRepair :: bool
  flScheduleDaysBetween :: int
  flScheduleTriggerTime :: string
  flState :: ScheduleState
  flSortBy :: ScheduleSortBy
  flReverseSort :: bool
  Args :: "string list"

text \<open>The values the source declares as defaults; a flag without one has the zero value.\<close>

definition flag_defaults :: flags where
  "flag_defaults =
     \<lparr> flShowRuns = True, flShowSchedules = False, flCFs = [], flRunState = [],
       flScheduleState = [], flSeed = [], flCluster = [], flKeyspace = [], flTables = [],
       flOwner = [], flCause = [], flStartAfter = 0, flStartBefore = 0, flID = - 1,
       flScheduleID = [], flSegments = 200, flPar = [], flIntensity = 1 / 2,
       flIncrementalRepair = False, flScheduleDaysBetween = 14,
       flScheduleTriggerTime = [], flState = [], flSortBy = [], flReverseSort = False,
       Args = [] \<rparr>"

text \<open>
  The outcome of \<^verbatim>\<open>fs.Parse(args)\<close>: the help signal \<^verbatim>\<open>flag.ErrHelp\<close>, another error,
  or the flag variables.
\<close>

datatype parsed = ErrHelp | ParseFailed error | Parsed flags

text \<open>
  The libraries and the network, which the program only calls: the flag parser (by the
  name of the flag set), \<^verbatim>\<open>http.NewRequest\<close> (method, URL), the round trip of a request
  (method, URL), \<^verbatim>\<open>url.Values.Encode\<close> on the pairs added, \<^verbatim>\<open>strconv.Itoa\<close>, the
  format \<^verbatim>\<open>%0.3f\<close>, \<^verbatim>\<open>sort.Slice\<close> on schedules, and the JSON decoders for the types
  the program decodes into.
  \<open>host\<close> is \<^verbatim>\<open>flReaperHost[0]\<close>.
\<close>

record env =
  host :: string
  Parse :: "string \<Rightarrow> string list \<Rightarrow> parsed"
  NewRequest :: "string \<Rightarrow> string \<Rightarrow> error option"
  RoundTrip :: "string \<Rightarrow> string \<Rightarrow> error + response"
  Encode :: "(string \<times> string) list \<Rightarrow> string"
  Itoa :: "int \<Rightarrow> string"
  FormatFloat3 :: "real \<Rightarrow> string"
  sort_Slice ::
    "RepairSchedule list \<Rightarrow> (RepairSchedule \<Rightarrow> RepairSchedule \<Rightarrow> bool option)
       \<Rightarrow> RepairSchedule list option"
  DecodeStrings :: "string \<Rightarrow> error + string list"
  DecodeCluster :: "string \<Rightarrow> error + Cluster"
  DecodeRun :: "string \<Rightarrow> error + RepairRun"
  DecodeRuns :: "string \<Rightarrow> error + RepairRun list"
  DecodeSchedule :: "string \<Rightarrow> error + RepairSchedule"
  DecodeSchedules :: "string \<Rightarrow> error + RepairSchedule list"

definition nl :: string where "nl = [CHR 0x0A]"

definition makeURL :: "env \<Rightarrow> string \<Rightarrow> string" where
  "makeURL ev path = ''http://'' @ host ev @ path"

fun Join :: "string list \<Rightarrow> string \<Rightarrow> string" where
  "Join [] sep = []"
| "Join [x] sep = x"
| "Join (x # y # ys) sep = x @ sep @ Join (y # ys) sep"

definition StatusOK :: int where "StatusOK = 200"
definition StatusCreated :: int where "StatusCreated = 201"

section \<open>Subcommands on clusters (cluster.go)\<close>

text \<open>
  \<^verbatim>\<open>listClusters\<close> ignores its arguments and declares no flag set.  It decodes the body
  of whatever response it receives: the status code is not looked at.
\<close>

definition listClusters :: "env \<Rightarrow> string list \<Rightarrow> result" where
  "listClusters ev args =
     (let url = makeURL ev ''/cluster'' in
      case RoundTrip ev ''GET'' url of
        Inl err \<Rightarrow> ([HTTPRequest ''GET'' url], Return (Some (E IO ''listClusters'' err)))
      | Inr resp \<Rightarrow>
        (case DecodeStrings ev (Body resp) of
           Inl err \<Rightarrow> ([HTTPRequest ''GET'' url], Return (Some (E IO ''listClusters'' err)))
         | Inr res \<Rightarrow>
             ([HTTPRequest ''GET'' url, Println (''All clusters:'' @ nl)] @ map Println res,
              Return None)))"

text \<open>
  The two loops of \<^verbatim>\<open>printCluster\<close>.  The loop over the runs sets \<^verbatim>\<open>headerPrinted\<close>
  after the header; the loop over the schedules never does.
\<close>

fun printCluster_runs :: "printClusterParams \<Rightarrow> bool \<Rightarrow> RepairRun list \<Rightarrow> event list" where
  "printCluster_runs params headerPrinted [] = []"
| "printCluster_runs params headerPrinted (run # rest) =
     (if \<not> printCluster_run_shown params run
      then printCluster_runs params headerPrinted rest
      else (if \<not> headerPrinted then [Yellow (''Runs:'' @ nl) []] else [])
           @ [Printf (''%+v'' @ nl) [ArgRun run]]
           @ printCluster_runs params True rest)"

fun printCluster_schedules ::
  "printClusterParams \<Rightarrow> bool \<Rightarrow> RepairSchedule list \<Rightarrow> event list" where
  "printCluster_schedules params headerPrinted [] = []"
| "printCluster_schedules params headerPrinted (sc # rest) =
     (if \<not> printCluster_schedule_shown params sc
      then printCluster_schedules params headerPrinted rest
      else (if \<not> headerPrinted then [Yellow (''Schedules:'' @ nl) []] else [])
           @ [Printf (''%+v'' @ nl) [ArgSchedule sc]]
           @ printCluster_schedules params headerPrinted rest)"

definition printCluster :: "Cluster \<Rightarrow> printClusterParams \<Rightarrow> event list" where
  "printCluster c params =
     [Yellow (''Seeds:'' @ nl) []] @ map Println (SeedHosts c) @ [Println []]
     @ (if ShowRuns params then printCluster_runs params False (RepairRuns c) else [])
     @ (if ShowSchedules params
        then printCluster_schedules params False (RepairSchedules c) else [])"

text \<open>
  In the subcommands below, \<^verbatim>\<open>buf\<close> receives what is read from the response body.
  On a status other than the expected one, \<^verbatim>\<open>io.Copy\<close> drains the body into it, and
  \<^verbatim>\<open>buf.String()\<close> is the body.
\<close>

definition viewCluster :: "env \<Rightarrow> string list \<Rightarrow> result" where
  "viewCluster ev args =
     (case Parse ev ''view-cluster'' args of
        ErrHelp \<Rightarrow> ([], Return None)
      | ParseFailed err \<Rightarrow> ([], Return (Some err))
      | Parsed fl \<Rightarrow>
        if length (Args fl) < 1
        then ([], Return (Some (Str ''please provide a cluster name'')))
        else
          let flName = Args fl ! 0;
              url = makeURL ev (''/cluster/'' @ flName)
          in
          case RoundTrip ev ''GET'' url of
            Inl err \<Rightarrow> ([HTTPRequest ''GET'' url], Return (Some (E IO ''viewCluster'' err)))
          | Inr resp \<Rightarrow>
            if StatusCode resp \<noteq> StatusOK
            then ([HTTPRequest ''GET'' url], Return (Some (Str (Body resp))))
            else
              (case DecodeCluster ev (Body resp) of
                 Inl err \<Rightarrow>
                   ([HTTPRequest ''GET'' url], Return (Some (E IO ''viewCluster'' err)))
               | Inr res \<Rightarrow>
                   let params = \<lparr> ShowRuns = flShowRuns fl,
                                  ShowSchedules = flShowSchedules fl,
                                  FilterCFs = flCFs fl,
                                  FilterRunState = flRunState fl,
                                  FilterScheduleState = flScheduleState fl \<rparr>
                   in ([HTTPRequest ''GET'' url,
                        Printf (''Cluster %q:'' @ nl @ nl) [ArgString flName]]
                       @ printCluster res params,
                       Return None)))"

definition addCluster :: "env \<Rightarrow> string list \<Rightarrow> result" where
  "addCluster ev args =
     (case Parse ev ''add-cluster'' args of
        ErrHelp \<Rightarrow> ([], Return None)
      | ParseFailed err \<Rightarrow> ([], Return (Some err))
      | Parsed fl \<Rightarrow>
        if flSeed fl = []
        then ([], Return (Some (Str ''please provide a seed host'')))
        else
          let url = makeURL ev (''/cluster?seedHost='' @ flSeed fl) in
          case RoundTrip ev ''POST'' url of
            Inl err \<Rightarrow> ([HTTPRequest ''POST'' url], Return (Some (E IO ''addCluster'' err)))
          | Inr resp \<Rightarrow>
            if StatusCode resp \<noteq> StatusOK
            then ([HTTPRequest ''POST'' url], Return (Some (Str (Body resp))))
            else
              (case DecodeCluster ev (Body resp) of
                 Inl err \<Rightarrow>
                   ([HTTPRequest ''POST'' url], Return (Some (E IO ''addCluster'' err)))
               | Inr res \<Rightarrow>
                   ([HTTPRequest ''POST'' url,
                     Yellow ''Cluster %s correctly added'' [ArgString (Name res)]]
                    @ printCluster res
                        \<lparr> ShowRuns = False, ShowSchedules = False, FilterCFs = [],
                          FilterRunState = [], FilterScheduleState = [] \<rparr>,
                    Return None)))"

section \<open>Subcommands on repair runs (repair.go)\<close>

text \<open>
  A method call on the \<^verbatim>\<open>StartTime\<close> pointer of a run; a nil pointer makes the program
  panic (\<open>None\<close>).
\<close>

definition StartTime_Before :: "RepairRun \<Rightarrow> Time \<Rightarrow> bool option" where
  "StartTime_Before run u = (case StartTime run of None \<Rightarrow> None | Some t \<Rightarrow> Some (Before t u))"

definition StartTime_After :: "RepairRun \<Rightarrow> Time \<Rightarrow> bool option" where
  "StartTime_After run u = (case StartTime run of None \<Rightarrow> None | Some t \<Rightarrow> Some (After t u))"

text \<open>
  The \<^verbatim>\<open>switch\<close> in the loop of \<^verbatim>\<open>listRepairs\<close>: the cases are tried in order, and each
  of them is a \<^verbatim>\<open>continue\<close> (\<open>Some True\<close>: the run is skipped).  When no case applies
  the run is printed (\<open>Some False\<close>).  \<^verbatim>\<open>&&\<close> evaluates its right operand only if the
  left one holds.
\<close>

definition listRepairs_skip :: "flags \<Rightarrow> RepairRun \<Rightarrow> bool option" where
  "listRepairs_skip fl run =
     (if flCluster fl \<noteq> [] \<and> flCluster fl \<noteq> ClusterName run then Some True
      else if flKeyspace fl \<noteq> [] \<and> flKeyspace fl \<noteq> KeyspaceName run then Some True
      else if length (flTables fl) > 0 \<and> contains (ColumnFamilies run) (flTables fl)
      then Some True
      else if flOwner fl \<noteq> [] \<and> flOwner fl \<noteq> Owner run then Some True
      else if flCause fl \<noteq> [] \<and> flCause fl \<noteq> Cause run then Some True
      else if (\<not> IsZero (flStartAfter fl) \<or> \<not> IsZero (flStartBefore fl))
              \<and> StartTime run = None
      then Some True
      else
        case (if \<not> IsZero (flStartAfter fl)
              then StartTime_Before run (flStartAfter fl) else Some False) of
          None \<Rightarrow> None
        | Some True \<Rightarrow> Some True
        | Some False \<Rightarrow>
          (case (if \<not> IsZero (flStartBefore fl)
                 then StartTime_After run (flStartBefore fl) else Some False) of
             None \<Rightarrow> None
           | Some True \<Rightarrow> Some True
           | Some False \<Rightarrow> Some False))"

fun listRepairs_loop :: "flags \<Rightarrow> RepairRun list \<Rightarrow> result" where
  "listRepairs_loop fl [] = ([], Return None)"
| "listRepairs_loop fl (run # rest) =
     (case listRepairs_skip fl run of
        None \<Rightarrow> ([], Panic)
      | Some True \<Rightarrow> listRepairs_loop fl rest
      | Some False \<Rightarrow>
          (Printf (''%+v'' @ nl) [ArgRun run] # fst (listRepairs_loop fl rest),
           snd (listRepairs_loop fl rest)))"

definition listRepairs :: "env \<Rightarrow> string list \<Rightarrow> result" where
  "listRepairs ev args =
     (case Parse ev ''list-repairs'' args of
        ErrHelp \<Rightarrow> ([], Return None)
      | ParseFailed err \<Rightarrow> ([], Return (Some err))
      | Parsed fl \<Rightarrow>
        let qry = (if flRunState fl \<noteq> [] then [(''state'', RunState_String (flRunState fl))]
                   else []);
            url = makeURL ev ''/repair_run?'' @ Encode ev qry
        in
        case RoundTrip ev ''GET'' url of
          Inl err \<Rightarrow> ([HTTPRequest ''GET'' url], Return (Some (E IO ''listRepairs'' err)))
        | Inr resp \<Rightarrow>
          if StatusCode resp \<noteq> StatusOK
          then ([HTTPRequest ''GET'' url], Return (Some (Str (Body resp))))
          else
            (case DecodeRuns ev (Body resp) of
               Inl err \<Rightarrow> ([HTTPRequest ''GET'' url], Return (Some (E IO ''listRepairs'' err)))
             | Inr res \<Rightarrow>
                 (HTTPRequest ''GET'' url # fst (listRepairs_loop fl res),
                  snd (listRepairs_loop fl res))))"

definition viewRepair :: "env \<Rightarrow> string list \<Rightarrow> result" where
  "viewRepair ev args =
     (case Parse ev ''view-repair'' args of
        ErrHelp \<Rightarrow> ([], Return None)
      | ParseFailed err \<Rightarrow> ([], Return (Some err))
      | Parsed fl \<Rightarrow>
        if flID fl \<le> 0
        then ([], Return (Some (Str ''please provide a valid ID'')))
        else
          let url = makeURL ev (''/repair_run/'' @ Itoa ev (flID fl)) in
          case RoundTrip ev ''GET'' url of
            Inl err \<Rightarrow> ([HTTPRequest ''GET'' url], Return (Some (E IO ''viewRepair'' err)))
          | Inr resp \<Rightarrow>
            if StatusCode resp \<noteq> StatusOK
            then ([HTTPRequest ''GET'' url], Return (Some (Str (Body resp))))
            else
              (case DecodeRun ev (Body resp) of
                 Inl err \<Rightarrow>
                   ([HTTPRequest ''GET'' url], Return (Some (E IO ''viewRepair'' err)))
               | Inr res \<Rightarrow>
                   ([HTTPRequest ''GET'' url, Printf (''%+v'' @ nl) [ArgRun res]],
                    Return None)))"

text \<open>
  \<^verbatim>\<open>changeRepairState\<close>: on the expected status nothing has been read from the body, so
  \<^verbatim>\<open>buf\<close> is empty when its length is tested.
\<close>

definition changeRepairState :: "env \<Rightarrow> int \<Rightarrow> RunState \<Rightarrow> result" where
  "changeRepairState ev repairID state =
     (let qry = [(''state'', RunState_String state)];
          ur = makeURL ev (''/repair_run/'' @ Itoa ev repairID) @ ''?'' @ Encode ev qry
      in
      case NewRequest ev ''PUT'' ur of
        Some err \<Rightarrow> ([], Return (Some (E Invalid ''changeRepairState'' err)))
      | None \<Rightarrow>
        (case RoundTrip ev ''PUT'' ur of
           Inl err \<Rightarrow>
             ([HTTPRequest ''PUT'' ur], Return (Some (E IO ''changeRepairState'' err)))
         | Inr resp \<Rightarrow>
           if StatusCode resp \<noteq> StatusOK
           then ([HTTPRequest ''PUT'' ur], Return (Some (Str (Body resp))))
           else
             let buf = [] in
             ([HTTPRequest ''PUT'' ur, Yellow ''State changed to %s'' [ArgString state]]
              @ (if length buf > 0 then [Println buf] else []),
              Return None)))"

definition pauseRepair :: "env \<Rightarrow> string list \<Rightarrow> result" where
  "pauseRepair ev args =
     (case Parse ev ''pause-repair'' args of
        ErrHelp \<Rightarrow> ([], Return None)
      | ParseFailed err \<Rightarrow> ([], Return (Some err))
      | Parsed fl \<Rightarrow>
        if flID fl \<le> 0
        then ([], Return (Some (Str ''please provide a valid ID'')))
        else changeRepairState ev (flID fl) Paused)"

definition resumeRepair :: "env \<Rightarrow> string list \<Rightarrow> result" where
  "resumeRepair ev args =
     (case Parse ev ''resume-repair'' args of
        ErrHelp \<Rightarrow> ([], Return None)
      | ParseFailed err \<Rightarrow> ([], Return (Some err))
      | Parsed fl \<Rightarrow>
        if flID fl \<le> 0
        then ([], Return (Some (Str ''please provide a valid ID'')))
        else changeRepairState ev (flID fl) Running)"

definition deleteRepair :: "env \<Rightarrow> string list \<Rightarrow> result" where
  "deleteRepair ev args =
     (case Parse ev ''delete-repair'' args of
        ErrHelp \<Rightarrow> ([], Return None)
      | ParseFailed err \<Rightarrow> ([], Return (Some err))
      | Parsed fl \<Rightarrow>
        if flID fl \<le> 0
        then ([], Return (Some (Str ''please provide a valid ID'')))
        else if flOwner fl = []
        then ([], Return (Some (Str ''please provide a valid owner'')))
        else
          let qry = [(''owner'', flOwner fl)];
              ur = makeURL ev (''/repair_run/'' @ Itoa ev (flID fl) @ ''?'' @ Encode ev qry)
          in
          case NewRequest ev ''DELETE'' ur of
            Some err \<Rightarrow> ([], Return (Some (E Invalid ''deleteRepair'' err)))
          | None \<Rightarrow>
            (case RoundTrip ev ''DELETE'' ur of
               Inl err \<Rightarrow>
                 ([HTTPRequest ''DELETE'' ur], Return (Some (E IO ''deleteRepair'' err)))
             | Inr resp \<Rightarrow>
               if StatusCode resp \<noteq> StatusOK
               then ([HTTPRequest ''DELETE'' ur], Return (Some (Str (Body resp))))
               else
                 let buf = [] in
                 ([HTTPRequest ''DELETE'' ur, Println buf], Return None)))"

definition addRepair :: "env \<Rightarrow> string list \<Rightarrow> result" where
  "addRepair ev args =
     (case Parse ev ''add-repair'' args of
        ErrHelp \<Rightarrow> ([], Return None)
      | ParseFailed err \<Rightarrow> ([], Return (Some err))
      | Parsed fl \<Rightarrow>
        if flCluster fl = [] then ([], Return (Some (Str ''please provide a cluster'')))
        else if flKeyspace fl = [] then ([], Return (Some (Str ''please provide a keyspace'')))
        else if flOwner fl = [] then ([], Return (Some (Str ''please provide an owner'')))
        else if flCause fl = [] then ([], Return (Some (Str ''please provide a cause'')))
        else
          let flPar' = (if flPar fl = [] then Sequential else flPar fl);
              qry = [(''clusterName'', flCluster fl), (''keyspace'', flKeyspace fl)]
                    @ (if length (flTables fl) > 0
                       then [(''tables'', Join (flTables fl) '','')] else [])
                    @ [(''owner'', flOwner fl), (''cause'', flCause fl),
                       (''segmentCount'', Itoa ev (flSegments fl)),
                       (''repairParallelism'', Parallelism_String flPar'),
                       (''intensity'', FormatFloat3 ev (flIntensity fl))];
              ur = makeURL ev ''/repair_run?'' @ Encode ev qry
          in
          case RoundTrip ev ''POST'' ur of
            Inl err \<Rightarrow> ([HTTPRequest ''POST'' ur], Return (Some (E IO ''addRepair'' err)))
          | Inr resp \<Rightarrow>
            if StatusCode resp \<noteq> StatusCreated
            then ([HTTPRequest ''POST'' ur], Return (Some (Str (Body resp))))
            else
              (case DecodeRun ev (Body resp) of
                 Inl err \<Rightarrow>
                   ([HTTPRequest ''POST'' ur], Return (Some (E IO ''addRepair'' err)))
               | Inr res \<Rightarrow>
                   ([HTTPRequest ''POST'' ur,
                     Yellow ''Repair #%d correctly added'' [ArgInt (ID res)],
                     Printf (''%+v'' @ nl) [ArgRun res],
                     Yellow (''NOTE: remember to resume-repair the repair just created'' @ nl)
                       []],
                    Return None)))"

section \<open>Subcommands on schedules\<close>

definition addSchedule :: "env \<Rightarrow> string list \<Rightarrow> result" where
  "addSchedule ev args =
     (case Parse ev ''add-schedule'' args of
        ErrHelp \<Rightarrow> ([], Return None)
      | ParseFailed err \<Rightarrow> ([], Return (Some err))
      | Parsed fl \<Rightarrow>
        let note = (if flIncrementalRepair fl
                    then [Println ''NOTE: incremental repairs are not supported yet'']
                    else [])
        in
        if flCluster fl = [] then (note, Return (Some (Str ''please provide a cluster'')))
        else if flKeyspace fl = []
        then (note, Return (Some (Str ''please provide a keyspace'')))
        else if flOwner fl = [] then (note, Return (Some (Str ''please provide an owner'')))
        else
          let flPar' = (if flPar fl = [] then Sequential else flPar fl);
              qry = [(''clusterName'', flCluster fl), (''keyspace'', flKeyspace fl)]
                    @ (if length (flTables fl) > 0
                       then [(''tables'', Join (flTables fl) '','')] else [])
                    @ [(''owner'', flOwner fl),
                       (''segmentCount'', Itoa ev (flSegments fl)),
                       (''repairParallelism'', Parallelism_String flPar'),
                       (''intensity'', FormatFloat3 ev (flIntensity fl)),
                       (''scheduleDaysBetween'', Itoa ev (flScheduleDaysBetween fl))]
                    @ (if flScheduleTriggerTime fl \<noteq> []
                       then [(''scheduleTriggerTime'', flScheduleTriggerTime fl)] else []);
              ur = makeURL ev ''/repair_schedule?'' @ Encode ev qry
          in
          case RoundTrip ev ''POST'' ur of
            Inl err \<Rightarrow>
              (note @ [HTTPRequest ''POST'' ur], Return (Some (E IO ''addSchedule'' err)))
          | Inr resp \<Rightarrow>
            if StatusCode resp \<noteq> StatusCreated
            then (note @ [HTTPRequest ''POST'' ur], Return (Some (Str (Body resp))))
            else
              (case DecodeSchedule ev (Body resp) of
                 Inl err \<Rightarrow>
                   (note @ [HTTPRequest ''POST'' ur],
                    Return (Some (E IO ''addSchedule'' err)))
               | Inr res \<Rightarrow>
                   (note @ [HTTPRequest ''POST'' ur,
                            Yellow ''Schedule #%d correctly added'' [ArgString (sID res)],
                            Printf (''%+v'' @ nl) [ArgSchedule res]],
                    Return None)))"

definition viewSchedule :: "env \<Rightarrow> string list \<Rightarrow> result" where
  "viewSchedule ev args =
     (case Parse ev ''view-schedule'' args of
        ErrHelp \<Rightarrow> ([], Return None)
      | ParseFailed err \<Rightarrow> ([], Return (Some err))
      | Parsed fl \<Rightarrow>
        if flScheduleID fl = []
        then ([], Return (Some (Str ''please provide a valid ID'')))
        else
          let url = makeURL ev (''/repair_schedule/'' @ flScheduleID fl) in
          case RoundTrip ev ''GET'' url of
            Inl err \<Rightarrow> ([HTTPRequest ''GET'' url], Return (Some (E IO ''viewSchedule'' err)))
          | Inr resp \<Rightarrow>
            if StatusCode resp \<noteq> StatusOK
            then ([HTTPRequest ''GET'' url], Return (Some (Str (Body resp))))
            else
              (case DecodeSchedule ev (Body resp) of
                 Inl err \<Rightarrow>
                   ([HTTPRequest ''GET'' url], Return (Some (E IO ''viewSchedule'' err)))
               | Inr res \<Rightarrow>
                   ([HTTPRequest ''GET'' url, Printf (''%+v'' @ nl) [ArgSchedule res]],
                    Return None)))"

text \<open>\<^verbatim>\<open>callListSchedules\<close> returns the schedules or an error, after one request.\<close>

definition callListSchedules ::
  "env \<Rightarrow> (string \<times> string) list \<Rightarrow> event list \<times> (error + RepairSchedule list)" where
  "callListSchedules ev qry =
     (let url = makeURL ev ''/repair_schedule'' @ ''?'' @ Encode ev qry in
      case RoundTrip ev ''GET'' url of
        Inl err \<Rightarrow> ([HTTPRequest ''GET'' url], Inl (E IO ''callListSchedules'' err))
      | Inr resp \<Rightarrow>
        if StatusCode resp \<noteq> StatusOK
        then ([HTTPRequest ''GET'' url], Inl (Str (Body resp)))
        else
          (case DecodeSchedules ev (Body resp) of
             Inl err \<Rightarrow> ([HTTPRequest ''GET'' url], Inl (E IO ''callListSchedules'' err))
           | Inr res \<Rightarrow> ([HTTPRequest ''GET'' url], Inr res)))"

text \<open>
  \<^verbatim>\<open>sortSchedules\<close> sorts the slice in place; the model returns the slice after the
  call, or \<open>None\<close> when a comparison panics.
\<close>

definition sortSchedules ::
  "env \<Rightarrow> RepairSchedule list \<Rightarrow> ScheduleSortBy \<Rightarrow> bool \<Rightarrow> RepairSchedule list option" where
  "sortSchedules ev res sortBy reverse =
     (if sortBy = ScheduleSortByNextActivation \<and> \<not> reverse
      then sort_Slice ev res NextActivation_Before
      else if sortBy = ScheduleSortByNextActivation
      then sort_Slice ev res NextActivation_After
      else Some res)"

definition nextSchedule :: "env \<Rightarrow> string list \<Rightarrow> result" where
  "nextSchedule ev args =
     (case Parse ev ''next-schedule'' args of
        ErrHelp \<Rightarrow> ([], Return None)
      | ParseFailed err \<Rightarrow> ([], Return (Some err))
      | Parsed fl \<Rightarrow>
        (case callListSchedules ev [] of
           (tr, Inl err) \<Rightarrow> (tr, Return (Some err))
         | (tr, Inr res) \<Rightarrow>
           if length res \<le> 0 then (tr, Return None)
           else
             (case sortSchedules ev res ScheduleSortByNextActivation False of
                None \<Rightarrow> (tr, Panic)
              | Some res' \<Rightarrow>
                  (tr @ [Printf (''%+v'' @ nl @ nl) [ArgSchedule (res' ! 0)]],
                   Return None))))"

fun listSchedules_loop :: "flags \<Rightarrow> RepairSchedule list \<Rightarrow> event list" where
  "listSchedules_loop fl [] = []"
| "listSchedules_loop fl (sched # rest) =
     (let keyspaceOK = (flKeyspace fl = [] \<or> sKeyspaceName sched = flKeyspace fl);
          stateOK = (flState fl = [] \<or> sState sched = flState fl)
      in
      if \<not> keyspaceOK \<or> \<not> stateOK then listSchedules_loop fl rest
      else Printf (''%+v'' @ nl @ nl) [ArgSchedule sched] # listSchedules_loop fl rest)"

definition listSchedules :: "env \<Rightarrow> string list \<Rightarrow> result" where
  "listSchedules ev args =
     (case Parse ev ''list-schedules'' args of
        ErrHelp \<Rightarrow> ([], Return None)
      | ParseFailed err \<Rightarrow> ([], Return (Some err))
      | Parsed fl \<Rightarrow>
        let qry = (if flCluster fl \<noteq> [] then [(''clusterName'', flCluster fl)] else [])
                  @ (if flKeyspace fl \<noteq> [] then [(''keyspaceName'', flKeyspace fl)] else [])
        in
        case callListSchedules ev qry of
          (tr, Inl err) \<Rightarrow> (tr, Return (Some err))
        | (tr, Inr res) \<Rightarrow>
          (case sortSchedules ev res (flSortBy fl) (flReverseSort fl) of
             None \<Rightarrow> (tr, Panic)
           | Some res' \<Rightarrow> (tr @ listSchedules_loop fl res', Return None)))"

definition deleteSchedule :: "env \<Rightarrow> string list \<Rightarrow> result" where
  "deleteSchedule ev args =
     (case Parse ev ''delete-schedule'' args of
        ErrHelp \<Rightarrow> ([], Return None)
      | ParseFailed err \<Rightarrow> ([], Return (Some err))
      | Parsed fl \<Rightarrow>
        if flScheduleID fl = []
        then ([], Return (Some (Str ''please provide a valid ID'')))
        else if flOwner fl = []
        then ([], Return (Some (Str ''please provide a valid owner'')))
        else
          let qry = [(''owner'', flOwner fl)];
              ur = makeURL ev (''/repair_schedule/'' @ flScheduleID fl) @ ''?'' @ Encode ev qry
          in
          case NewRequest ev ''DELETE'' ur of
            Some err \<Rightarrow> ([], Return (Some (E Invalid ''deleteSchedule'' err)))
          | None \<Rightarrow>
            (case RoundTrip ev ''DELETE'' ur of
               Inl err \<Rightarrow>
                 ([HTTPRequest ''DELETE'' ur], Return (Some (E IO ''deleteSchedule'' err)))
             | Inr resp \<Rightarrow>
               if StatusCode resp \<noteq> StatusOK
               then ([HTTPRequest ''DELETE'' ur], Return (Some (Str (Body resp))))
               else
                 (case DecodeSchedule ev (Body resp) of
                    Inl err \<Rightarrow>
                      ([HTTPRequest ''DELETE'' ur],
                       Return (Some (E IO ''deleteSchedule'' err)))
                  | Inr res \<Rightarrow>
                      ([HTTPRequest ''DELETE'' ur,
                        Yellow ''Schedule %s correctly deleted'' [ArgString (flScheduleID fl)],
                        Printf (''%+v'' @ nl) [ArgSchedule res]],
                       Return None))))"

definition changeScheduleState :: "env \<Rightarrow> string \<Rightarrow> ScheduleState \<Rightarrow> result" where
  "changeScheduleState ev repairID state =
     (let qry = [(''state'', ScheduleState_String state)];
          ur = makeURL ev (''/repair_schedule/'' @ repairID) @ ''?'' @ Encode ev qry
      in
      case NewRequest ev ''PUT'' ur of
        Some err \<Rightarrow> ([], Return (Some (E Invalid ''changeScheduleState'' err)))
      | None \<Rightarrow>
        (case RoundTrip ev ''PUT'' ur of
           Inl err \<Rightarrow>
             ([HTTPRequest ''PUT'' ur], Return (Some (E IO ''changeScheduleState'' err)))
         | Inr resp \<Rightarrow>
           if StatusCode resp \<noteq> StatusOK
           then ([HTTPRequest ''PUT'' ur], Return (Some (Str (Body resp))))
           else
             let buf = [] in
             ([HTTPRequest ''PUT'' ur, Yellow ''State changed to %s'' [ArgString state]]
              @ (if length buf > 0 then [Println buf] else []),
              Return None)))"

definition pauseSchedule :: "env \<Rightarrow> string list \<Rightarrow> result" where
  "pauseSchedule ev args =
     (case Parse ev ''pause-schedule'' args of
        ErrHelp \<Rightarrow> ([], Return None)
      | ParseFailed err \<Rightarrow> ([], Return (Some err))
      | Parsed fl \<Rightarrow>
        if flScheduleID fl = []
        then ([], Return (Some (Str ''please provide a valid ID'')))
        else changeScheduleState ev (flScheduleID fl) SPaused)"

definition resumeSchedule :: "env \<Rightarrow> string list \<Rightarrow> result" where
  "resumeSchedule ev args =
     (case Parse ev ''resume-schedule'' args of
        ErrHelp \<Rightarrow> ([], Return None)
      | ParseFailed err \<Rightarrow> ([], Return (Some err))
      | Parsed fl \<Rightarrow>
        if flScheduleID fl = []
        then ([], Return (Some (Str ''please provide a valid ID'')))
        else changeScheduleState ev (flScheduleID fl) SActive)"

section \<open>Command dispatch\<close>

text \<open>
  The functions of type \<^verbatim>\<open>commandFn\<close> that the source defines, by name, and the call
  of one of them on the arguments.
\<close>

datatype commandFn =
    AddCluster | ViewCluster | ListClusters
  | AddRepair | ViewRepair | ListRepairs | PauseRepair | ResumeRepair | DeleteRepair
  | AddSchedule | ViewSchedule | ListSchedules | PauseSchedule | ResumeSchedule
  | DeleteSchedule | NextSchedule

fun call :: "commandFn \<Rightarrow> env \<Rightarrow> string list \<Rightarrow> result" where
  "call AddCluster = addCluster"
| "call ViewCluster = viewCluster"
| "call ListClusters = listClusters"
| "call AddRepair = addRepair"
| "call ViewRepair = viewRepair"
| "call ListRepairs = listRepairs"
| "call PauseRepair = pauseRepair"
| "call ResumeRepair = resumeRepair"
| "call DeleteRepair = deleteRepair"
| "call AddSchedule = addSchedule"
| "call ViewSchedule = viewSchedule"
| "call ListSchedules = listSchedules"
| "call PauseSchedule = pauseSchedule"
| "call ResumeSchedule = resumeSchedule"
| "call DeleteSchedule = deleteSchedule"
| "call NextSchedule = nextSchedule"

text \<open>
  The table \<^verbatim>\<open>commands\<close>: a map from group names to maps from subcommand names to
  functions, written as the literal lists its entries.
\<close>

definition commands :: "(string \<times> (string \<times> commandFn) list) list" where
  "commands =
     [(''cluster'',
         [(''add-cluster'', AddCluster),
          (''view-cluster'', ViewCluster),
          (''list-clusters'', ListClusters)]),
      (''repair'',
         [(''add-repair'', AddRepair),
          (''view-repair'', ViewRepair),
          (''list-repairs'', ListRepairs),
          (''pause-repair'', PauseRepair),
          (''resume-repair'', ResumeRepair),
          (''delete-repair'', DeleteRepair)]),
      (''schedule'',
         [(''add-schedule'', AddSchedule),
          (''view-schedule'', ViewSchedule),
          (''list-schedules'', ListSchedules),
          (''pause-schedule'', PauseSchedule),
          (''resume-schedule'', ResumeSchedule),
          (''delete-schedule'', DeleteSchedule)])]"

text \<open>
  \<^verbatim>\<open>findCommand\<close> goes through the groups and returns the first function registered
  under the name, or nil.
\<close>

fun findCommand_groups ::
  "(string \<times> (string \<times> commandFn) list) list \<Rightarrow> string \<Rightarrow> commandFn option" where
  "findCommand_groups [] name = None"
| "findCommand_groups ((groupName, grp) # rest) name =
     (case map_of grp name of
        Some fn \<Rightarrow> Some fn
      | None \<Rightarrow> findCommand_groups rest name)"

definition findCommand :: "string \<Rightarrow> commandFn option" where
  "findCommand name = findCommand_groups commands name"

text \<open>
  The end of \<^verbatim>\<open>main\<close>, once the host is known and a subcommand was given: an unknown
  name and an error returned by the subcommand both end in \<^verbatim>\<open>log.Fatal\<close>.
\<close>

datatype exit = Success | FatalInvalidCommand string | FatalError error | Crashed

definition main_dispatch :: "env \<Rightarrow> string \<Rightarrow> string list \<Rightarrow> event list \<times> exit" where
  "main_dispatch ev command args =
     (case findCommand command of
        None \<Rightarrow> ([], FatalInvalidCommand command)
      | Some fn \<Rightarrow>
        (case call fn ev args of
           (tr, Return None) \<Rightarrow> (tr, Success)
         | (tr, Return (Some err)) \<Rightarrow> (tr, FatalError err)
         | (tr, Panic) \<Rightarrow> (tr, Crashed)))"

section \<open>Spellings that differ in the case of letters\<close>

text \<open>
  Two tokens are the same up to the case of their ASCII letters when they agree byte by
  byte once every upper-case ASCII letter is replaced by its lower-case form.
\<close>

definition lowerByte :: "nat \<Rightarrow> nat" where
  "lowerByte b = (if 0x41 \<le> b \<and> b \<le> 0x5A then b + 0x20 else b)"

definition ascii_fold :: "string \<Rightarrow> nat list" where
  "ascii_fold s = map lowerByte (bytes s)"

definition is_ascii :: "string \<Rightarrow> bool" where
  "is_ascii s = (\<forall>b \<in> set (bytes s). b < 0x80)"

section \<open>Example values\<close>

text \<open>A repair run as the service may return it.\<close>

definition example_run :: RepairRun where
  "example_run =
     \<lparr> ID = 1, Owner = ''ops'', ClusterName = ''prod'', KeyspaceName = ''ks'',
       State = ''RUNNING'', Cause = ''manual'', ColumnFamilies = [''t1'', ''t2''],
       Intensity = 1 / 2, TotalSegments = 200, SegmentsRepaired = 0, LastEvent = [],
       Duration = [], CreationTime = None, StartTime = None, EndTime = None,
       PauseTime = None \<rparr>"

text \<open>
  A world in which every request receives the given reply.  Its flag parser signals
  help when \<^verbatim>\<open>-h\<close> is among the arguments and otherwise yields the given flag values;
  its JSON decoders accept one document, the empty array; its \<^verbatim>\<open>Itoa\<close> knows the one
  identifier the examples use; it sorts by insertion.
\<close>

definition example_decode_list :: "string \<Rightarrow> error + 'a list" where
  "example_decode_list body =
     (if body = ''[]'' then Inr [] else Inl (LibraryError ''invalid character''))"

definition example_env :: "flags \<Rightarrow> (error + response) \<Rightarrow> env" where
  "example_env fl reply =
     \<lparr> host = ''reaper:8080'',
       Parse = (\<lambda>name args. if ''-h'' \<in> set args then ErrHelp else Parsed fl),
       NewRequest = (\<lambda>method url. None),
       RoundTrip = (\<lambda>method url. reply),
       Encode = (\<lambda>qry. concat (map (\<lambda>(k, v). k @ ''='' @ v @ ''&'') qry)),
       Itoa = (\<lambda>i. if i = 999 then ''999'' else ''1''),
       FormatFloat3 = (\<lambda>x. ''0.500''),
       sort_Slice = insertionSort,
       DecodeStrings = example_decode_list,
       DecodeCluster = (\<lambda>body. Inl (LibraryError ''invalid character'')),
       DecodeRun = (\<lambda>body. Inl (LibraryError ''invalid character'')),
       DecodeRuns = example_decode_list,
       DecodeSchedule = (\<lambda>body. Inl (LibraryError ''invalid character'')),
       DecodeSchedules = example_decode_list \<rparr>"

definition not_found :: "error + response" where
  "not_found = Inr \<lparr> StatusCode = 404, Body = ''not found'' \<rparr>"

text \<open>A schedule with the given identifier and next activation.\<close>

definition example_schedule :: "string \<Rightarrow> Time option \<Rightarrow> RepairSchedule" where
  "example_schedule ident next =
     \<lparr> sID = ident, sOwner = ''ops'', sClusterName = ''prod'', sKeyspaceName = ''ks'',
       sState = ''ACTIVE'', sColumnFamilies = [], sIntensity = 1 / 2,
       sIncrementalRepair = False, sRepairParallelism = ''SEQUENTIAL'',
       sScheduledDaysBetween = 14, sSegmentCount = 200, sCreationTime = None,
       sPauseTime = None, sNextActivation = next \<rparr>"

section \<open>The order of schedules by next activation\<close>

text \<open>
  Both schedules carry a next activation, and the first is not later than the second.
\<close>

definition activates_no_later :: "RepairSchedule \<Rightarrow> RepairSchedule \<Rightarrow> bool" where
  "activates_no_later a b =
     (case sNextActivation a of
        None \<Rightarrow> False
      | Some t \<Rightarrow> (case sNextActivation b of None \<Rightarrow> False | Some u \<Rightarrow> t \<le> u))"

section \<open>Properties of the overlap test\<close>

lemma dom_contains_fill: "dom (contains_fill m a) = dom m \<union> set a"
  by (induction a arbitrary: m) auto

lemma contains_probe_iff: "contains_probe m b \<longleftrightarrow> dom m \<inter> set b \<noteq> {}"
  by (induction b) (auto split: option.splits)

lemma contains_iff: "contains a b \<longleftrightarrow> set a \<inter> set b \<noteq> {}"
  by (simp add: contains_def contains_probe_iff dom_contains_fill)

text \<open>
  Claim C6.  \<^verbatim>\<open>contains\<close> is true exactly when the record's column families and the
  requested ones have an element in common; against a record without column families
  it is false whatever is requested, and so it is when nothing is requested; but with no
  column family requested \<^verbatim>\<open>printCluster\<close> does not make the test and does not consult
  the column families of a run or a schedule at all: only the state filter decides.
\<close>

theorem contains_any_overlap:
  "(contains record_cfs requested \<longleftrightarrow> set record_cfs \<inter> set requested \<noteq> {})
   \<and> contains [] requested = False
   \<and> contains record_cfs [] = False
   \<and> printCluster_run_shown (params\<lparr>FilterCFs := []\<rparr>) run
       = (FilterRunState params = [] \<or> State run = FilterRunState params)
   \<and> printCluster_schedule_shown (params\<lparr>FilterCFs := []\<rparr>) sc
       = (FilterScheduleState params = [] \<or> sState sc = FilterScheduleState params)"
  by (auto simp: contains_iff printCluster_run_shown_def printCluster_schedule_shown_def)

section \<open>Properties of the flag parsers\<close>

lemma DecodeRune_ascii: "b < 0x80 \<Longrightarrow> DecodeRune (b # bs) = (b, 1)"
  by (simp add: DecodeRune_def)

lemma runes_ascii: "\<forall>b \<in> set bs. b < 0x80 \<Longrightarrow> runes bs = bs"
  by (induction bs) (simp_all add: DecodeRune_ascii)

lemma foldEq_ascii: "a < 0x80 \<Longrightarrow> b < 0x80 \<Longrightarrow> foldEq a b \<longleftrightarrow> lowerByte a = lowerByte b"
  by (auto simp: foldEq_def lowerByte_def Let_def min_def max_def)

lemma foldEq_lower: "c < 0x80 \<Longrightarrow> foldEq r (lowerByte c) = foldEq r c"
  by (auto simp: foldEq_def lowerByte_def Let_def min_def max_def)

lemma list_all2_foldEq_ascii:
  "\<forall>b \<in> set xs. b < 0x80 \<Longrightarrow> \<forall>b \<in> set ys. b < 0x80 \<Longrightarrow>
   list_all2 foldEq xs ys \<longleftrightarrow> map lowerByte xs = map lowerByte ys"
proof (induction xs arbitrary: ys)
  case Nil
  then show ?case by auto
next
  case (Cons x xs)
  then show ?case by (cases ys) (auto simp: foldEq_ascii)
qed

lemma list_all2_foldEq_lower:
  "\<forall>b \<in> set ys. b < 0x80 \<Longrightarrow>
   list_all2 foldEq xs (map lowerByte ys) = list_all2 foldEq xs ys"
proof (induction xs arbitrary: ys)
  case Nil
  then show ?case by auto
next
  case (Cons x xs)
  then show ?case by (cases ys) (auto simp: foldEq_lower)
qed

lemma lowerByte_ascii_iff: "lowerByte b < 0x80 \<longleftrightarrow> b < 0x80"
  by (auto simp: lowerByte_def)

lemma ascii_fold_is_ascii: "ascii_fold s = ascii_fold t \<Longrightarrow> is_ascii t \<Longrightarrow> is_ascii s"
proof -
  assume eq: "ascii_fold s = ascii_fold t" and t: "is_ascii t"
  have "\<forall>b \<in> set (map lowerByte (bytes t)). b < 0x80"
    using t by (auto simp: is_ascii_def lowerByte_ascii_iff)
  then have "\<forall>b \<in> set (map lowerByte (bytes s)). b < 0x80"
    using eq by (simp add: ascii_fold_def)
  then show ?thesis by (auto simp: is_ascii_def lowerByte_ascii_iff)
qed

lemma EqualFold_ascii:
  "is_ascii s \<Longrightarrow> is_ascii t \<Longrightarrow> EqualFold s t \<longleftrightarrow> ascii_fold s = ascii_fold t"
  by (simp add: EqualFold_def is_ascii_def runes_ascii list_all2_foldEq_ascii ascii_fold_def)

lemma EqualFold_fold_right:
  assumes "is_ascii t" "is_ascii t'" "ascii_fold t = ascii_fold t'"
  shows "EqualFold s t = EqualFold s t'"
proof -
  have "list_all2 foldEq (runes (bytes s)) (bytes t)
        = list_all2 foldEq (runes (bytes s)) (map lowerByte (bytes t))"
    using assms(1) by (simp add: list_all2_foldEq_lower is_ascii_def)
  also have "\<dots> = list_all2 foldEq (runes (bytes s)) (map lowerByte (bytes t'))"
    using assms(3) by (simp add: ascii_fold_def)
  also have "\<dots> = list_all2 foldEq (runes (bytes s)) (bytes t')"
    using assms(2) by (simp add: list_all2_foldEq_lower is_ascii_def)
  finally show ?thesis
    using assms(1,2) by (simp add: EqualFold_def is_ascii_def runes_ascii)
qed


lemmas variant_defs = NotStarted_def Running_def Error_def Done_def Paused_def Aborted_def
  Deleted_def SActive_def SPaused_def SDeleted_def Sequential_def Parallel_def
  DatacenterAware_def RunState_String_def ScheduleState_String_def Parallelism_String_def

lemmas fold_eval = ascii_fold_def bytes_def lowerByte_def is_ascii_def

lemma EqualFold_of_variant:
  "ascii_fold s = ascii_fold v \<Longrightarrow> is_ascii v \<Longrightarrow> is_ascii kw \<Longrightarrow>
   EqualFold s kw \<longleftrightarrow> ascii_fold v = ascii_fold kw"
  using EqualFold_ascii [of s kw] ascii_fold_is_ascii [of s v] by simp

lemma RunState_Set_variants:
  assumes "v \<in> set runStates" "ascii_fold s = ascii_fold (RunState_String v)"
  shows "RunState_Set p s = (v, None)"
proof -
  have v_ascii: "is_ascii v"
    using assms(1) by (auto simp: runStates_def variant_defs fold_eval)
  note ef = EqualFold_of_variant [OF assms(2) [unfolded RunState_String_def] v_ascii]
  from assms(1) consider "v = NotStarted" | "v = Running" | "v = Error" | "v = Done"
    | "v = Paused" | "v = Aborted" | "v = Deleted"
    by (auto simp: runStates_def)
  then show ?thesis
  proof cases
    case 1 then show ?thesis by (simp add: RunState_Set_def ef variant_defs fold_eval)
  next
    case 2 then show ?thesis by (simp add: RunState_Set_def ef variant_defs fold_eval)
  next
    case 3 then show ?thesis by (simp add: RunState_Set_def ef variant_defs fold_eval)
  next
    case 4 then show ?thesis by (simp add: RunState_Set_def ef variant_defs fold_eval)
  next
    case 5 then show ?thesis by (simp add: RunState_Set_def ef variant_defs fold_eval)
  next
    case 6 then show ?thesis by (simp add: RunState_Set_def ef variant_defs fold_eval)
  next
    case 7 then show ?thesis by (simp add: RunState_Set_def ef variant_defs fold_eval)
  qed
qed

lemma ScheduleState_Set_variants:
  assumes "v \<in> set scheduleStates" "ascii_fold s = ascii_fold (ScheduleState_String v)"
  shows "ScheduleState_Set p s = (v, None)"
proof -
  have v_ascii: "is_ascii v"
    using assms(1) by (auto simp: scheduleStates_def variant_defs fold_eval)
  note ef = EqualFold_of_variant [OF assms(2) [unfolded ScheduleState_String_def] v_ascii]
  from assms(1) consider "v = SActive" | "v = SPaused" | "v = SDeleted"
    by (auto simp: scheduleStates_def)
  then show ?thesis
  proof cases
    case 1 then show ?thesis by (simp add: ScheduleState_Set_def ef variant_defs fold_eval)
  next
    case 2 then show ?thesis by (simp add: ScheduleState_Set_def ef variant_defs fold_eval)
  next
    case 3 then show ?thesis by (simp add: ScheduleState_Set_def ef variant_defs fold_eval)
  qed
qed

lemma Parallelism_Set_variants:
  assumes "v \<in> set parallelisms" "ascii_fold s = ascii_fold (Parallelism_String v)"
  shows "Parallelism_Set p s = (v, None)"
proof -
  have v_ascii: "is_ascii v"
    using assms(1) by (auto simp: parallelisms_def variant_defs fold_eval)
  note ef = EqualFold_of_variant [OF assms(2) [unfolded Parallelism_String_def] v_ascii]
  from assms(1) consider "v = Sequential" | "v = Parallel" | "v = DatacenterAware"
    by (auto simp: parallelisms_def)
  then show ?thesis
  proof cases
    case 1 then show ?thesis by (simp add: Parallelism_Set_def ef variant_defs fold_eval)
  next
    case 2 then show ?thesis by (simp add: Parallelism_Set_def ef variant_defs fold_eval)
  next
    case 3 then show ?thesis by (simp add: Parallelism_Set_def ef variant_defs fold_eval)
  qed
qed

lemma EqualFold_upper:
  "is_ascii t \<Longrightarrow> is_ascii t' \<Longrightarrow> ascii_fold t = ascii_fold t' \<Longrightarrow>
   \<not> EqualFold s t \<Longrightarrow> \<not> EqualFold s t'"
  using EqualFold_fold_right by blast

lemma RunState_Set_unmatched:
  assumes "\<forall>v \<in> set runStates. \<not> EqualFold s (RunState_String v)"
  shows "RunState_Set p s = (p, Some (Errorf ''invalid state %q'' [ArgString s]))"
proof -
  have 1: "\<not> EqualFold s ''not_started''"
    by (rule EqualFold_upper [of "''NOT_STARTED''"]) (use assms in \<open>simp_all add: runStates_def variant_defs fold_eval\<close>)
  have 2: "\<not> EqualFold s ''running''"
    by (rule EqualFold_upper [of "''RUNNING''"]) (use assms in \<open>simp_all add: runStates_def variant_defs fold_eval\<close>)
  have 3: "\<not> EqualFold s ''error''"
    by (rule EqualFold_upper [of "''ERROR''"]) (use assms in \<open>simp_all add: runStates_def variant_defs fold_eval\<close>)
  have 4: "\<not> EqualFold s ''done''"
    by (rule EqualFold_upper [of "''DONE''"]) (use assms in \<open>simp_all add: runStates_def variant_defs fold_eval\<close>)
  have 5: "\<not> EqualFold s ''paused''"
    by (rule EqualFold_upper [of "''PAUSED''"]) (use assms in \<open>simp_all add: runStates_def variant_defs fold_eval\<close>)
  have 6: "\<not> EqualFold s ''aborted''"
    by (rule EqualFold_upper [of "''ABORTED''"]) (use assms in \<open>simp_all add: runStates_def variant_defs fold_eval\<close>)
  have 7: "\<not> EqualFold s ''deleted''"
    by (rule EqualFold_upper [of "''DELETED''"]) (use assms in \<open>simp_all add: runStates_def variant_defs fold_eval\<close>)
  show ?thesis by (simp add: RunState_Set_def 1 2 3 4 5 6 7)
qed

lemma ScheduleState_Set_unmatched:
  assumes "\<forall>v \<in> set scheduleStates. \<not> EqualFold s (ScheduleState_String v)"
  shows "ScheduleState_Set p s = (p, Some (Errorf ''invalid state %q'' [ArgString s]))"
proof -
  have 1: "\<not> EqualFold s ''active''"
    by (rule EqualFold_upper [of "''ACTIVE''"]) (use assms in \<open>simp_all add: scheduleStates_def variant_defs fold_eval\<close>)
  have 2: "\<not> EqualFold s ''paused''"
    by (rule EqualFold_upper [of "''PAUSED''"]) (use assms in \<open>simp_all add: scheduleStates_def variant_defs fold_eval\<close>)
  have 3: "\<not> EqualFold s ''deleted''"
    by (rule EqualFold_upper [of "''DELETED''"]) (use assms in \<open>simp_all add: scheduleStates_def variant_defs fold_eval\<close>)
  show ?thesis by (simp add: ScheduleState_Set_def 1 2 3)
qed

lemma Parallelism_Set_unmatched:
  assumes "\<forall>v \<in> set parallelisms. \<not> EqualFold s (Parallelism_String v)"
  shows "Parallelism_Set p s = (p, Some (Errorf ''invalid parallelism %q'' [ArgString s]))"
proof -
  have 1: "\<not> EqualFold s ''sequential''"
    by (rule EqualFold_upper [of "''SEQUENTIAL''"]) (use assms in \<open>simp_all add: parallelisms_def variant_defs fold_eval\<close>)
  have 2: "\<not> EqualFold s ''parallel''"
    by (rule EqualFold_upper [of "''PARALLEL''"]) (use assms in \<open>simp_all add: parallelisms_def variant_defs fold_eval\<close>)
  have 3: "\<not> EqualFold s ''datacenter_aware''"
    by (rule EqualFold_upper [of "''DATACENTER_AWARE''"]) (use assms in \<open>simp_all add: parallelisms_def variant_defs fold_eval\<close>)
  show ?thesis by (simp add: Parallelism_Set_def 1 2 3)
qed


text \<open>
  Claim C2.  For each of the three flag types: \<^verbatim>\<open>Set\<close> applied to the canonical name of
  a defined variant stores that variant and returns nil; so does \<^verbatim>\<open>Set\<close> applied to any
  token that differs from the canonical name only in the case of its letters; and for a
  token that \<^verbatim>\<open>strings.EqualFold\<close> matches with no canonical name, \<^verbatim>\<open>Set\<close> returns the
  error built from the format \<^verbatim>\<open>invalid state %q\<close> (\<^verbatim>\<open>invalid parallelism %q\<close>) and the
  token itself.
\<close>

theorem enum_flags_parse:
  "(\<forall>v \<in> set runStates. RunState_Set p (RunState_String v) = (v, None))
   \<and> (\<forall>v \<in> set runStates.
          ascii_fold s = ascii_fold (RunState_String v) \<longrightarrow> RunState_Set p s = (v, None))
   \<and> ((\<forall>v \<in> set runStates. \<not> EqualFold s (RunState_String v)) \<longrightarrow>
          snd (RunState_Set p s) = Some (Errorf ''invalid state %q'' [ArgString s]))
   \<and> (\<forall>v \<in> set scheduleStates. ScheduleState_Set q (ScheduleState_String v) = (v, None))
   \<and> (\<forall>v \<in> set scheduleStates.
          ascii_fold s = ascii_fold (ScheduleState_String v) \<longrightarrow>
          ScheduleState_Set q s = (v, None))
   \<and> ((\<forall>v \<in> set scheduleStates. \<not> EqualFold s (ScheduleState_String v)) \<longrightarrow>
          snd (ScheduleState_Set q s) = Some (Errorf ''invalid state %q'' [ArgString s]))
   \<and> (\<forall>v \<in> set parallelisms. Parallelism_Set r (Parallelism_String v) = (v, None))
   \<and> (\<forall>v \<in> set parallelisms.
          ascii_fold s = ascii_fold (Parallelism_String v) \<longrightarrow>
          Parallelism_Set r s = (v, None))
   \<and> ((\<forall>v \<in> set parallelisms. \<not> EqualFold s (Parallelism_String v)) \<longrightarrow>
          snd (Parallelism_Set r s) = Some (Errorf ''invalid parallelism %q'' [ArgString s]))"
proof -
  have a1: "\<forall>v \<in> set runStates. RunState_Set p (RunState_String v) = (v, None)"
    using RunState_Set_variants [of _ "RunState_String _" p]
    by (simp add: RunState_String_def)
  have a2: "\<forall>v \<in> set scheduleStates. ScheduleState_Set q (ScheduleState_String v) = (v, None)"
    using ScheduleState_Set_variants [of _ "ScheduleState_String _" q]
    by (simp add: ScheduleState_String_def)
  have a3: "\<forall>v \<in> set parallelisms. Parallelism_Set r (Parallelism_String v) = (v, None)"
    using Parallelism_Set_variants [of _ "Parallelism_String _" r]
    by (simp add: Parallelism_String_def)
  show ?thesis
    using a1 a2 a3
    by (simp add: RunState_Set_variants ScheduleState_Set_variants Parallelism_Set_variants
          RunState_Set_unmatched ScheduleState_Set_unmatched Parallelism_Set_unmatched)
qed

lemmas EqualFold_eval = EqualFold_def bytes_def foldEq_def DecodeRune_def

theorem enum_flags_parse_witness:
  "RunState_Set [] (RunState_String Done) = (Done, None)
   \<and> RunState_Set [] ''pAuSeD'' = (Paused, None)
   \<and> snd (RunState_Set [] ''bogus'') = Some (Errorf ''invalid state %q'' [ArgString ''bogus''])
   \<and> ScheduleState_Set [] (ScheduleState_String SActive) = (SActive, None)
   \<and> ScheduleState_Set [] ''Deleted'' = (SDeleted, None)
   \<and> snd (ScheduleState_Set [] ''bogus'') = Some (Errorf ''invalid state %q'' [ArgString ''bogus''])
   \<and> Parallelism_Set [] (Parallelism_String Parallel) = (Parallel, None)
   \<and> Parallelism_Set [] ''DataCenter_Aware'' = (DatacenterAware, None)
   \<and> snd (Parallelism_Set [] ''bogus'')
       = Some (Errorf ''invalid parallelism %q'' [ArgString ''bogus''])"
  using enum_flags_parse [of "[]" "''pAuSeD''" "[]" "[]"]
        enum_flags_parse [of "[]" "''Deleted''" "[]" "[]"]
        enum_flags_parse [of "[]" "''DataCenter_Aware''" "[]" "[]"]
        enum_flags_parse [of "[]" "''bogus''" "[]" "[]"]
  by (simp add: runStates_def scheduleStates_def parallelisms_def variant_defs fold_eval
        EqualFold_eval)

text \<open>
  Claim C10.  For each of the three flag types and every stored value: when the token
  matches no defined variant, \<^verbatim>\<open>Set\<close> returns an error and the stored value is the one
  from before the call; and whenever \<^verbatim>\<open>Set\<close> returns an error the stored value is
  unchanged.
\<close>

theorem enum_flags_invalid_keeps_value:
  "((\<forall>v \<in> set runStates. \<not> EqualFold s (RunState_String v)) \<longrightarrow>
        fst (RunState_Set p s) = p \<and> snd (RunState_Set p s) \<noteq> None)
   \<and> (snd (RunState_Set p s) \<noteq> None \<longrightarrow> fst (RunState_Set p s) = p)
   \<and> ((\<forall>v \<in> set scheduleStates. \<not> EqualFold s (ScheduleState_String v)) \<longrightarrow>
        fst (ScheduleState_Set q s) = q \<and> snd (ScheduleState_Set q s) \<noteq> None)
   \<and> (snd (ScheduleState_Set q s) \<noteq> None \<longrightarrow> fst (ScheduleState_Set q s) = q)
   \<and> ((\<forall>v \<in> set parallelisms. \<not> EqualFold s (Parallelism_String v)) \<longrightarrow>
        fst (Parallelism_Set r s) = r \<and> snd (Parallelism_Set r s) \<noteq> None)
   \<and> (snd (Parallelism_Set r s) \<noteq> None \<longrightarrow> fst (Parallelism_Set r s) = r)"
proof -
  have b1: "snd (RunState_Set p s) \<noteq> None \<longrightarrow> fst (RunState_Set p s) = p"
    by (simp add: RunState_Set_def)
  have b2: "snd (ScheduleState_Set q s) \<noteq> None \<longrightarrow> fst (ScheduleState_Set q s) = q"
    by (simp add: ScheduleState_Set_def)
  have b3: "snd (Parallelism_Set r s) \<noteq> None \<longrightarrow> fst (Parallelism_Set r s) = r"
    by (simp add: Parallelism_Set_def)
  show ?thesis
    using b1 b2 b3
    by (simp add: RunState_Set_unmatched ScheduleState_Set_unmatched Parallelism_Set_unmatched)
qed

theorem enum_flags_invalid_keeps_value_witness:
  "fst (RunState_Set Running ''paused!'') = Running
   \<and> snd (RunState_Set Running ''paused!'') \<noteq> None
   \<and> fst (ScheduleState_Set SActive ''running'') = SActive
   \<and> snd (ScheduleState_Set SActive ''running'') \<noteq> None
   \<and> fst (Parallelism_Set Parallel []) = Parallel
   \<and> snd (Parallelism_Set Parallel []) \<noteq> None"
  using enum_flags_invalid_keeps_value [of "''paused!''" Running SActive Parallel]
        enum_flags_invalid_keeps_value [of "''running''" Running SActive Parallel]
        enum_flags_invalid_keeps_value [of "[]" Running SActive Parallel]
  by (simp add: runStates_def scheduleStates_def parallelisms_def variant_defs
        EqualFold_eval)

section \<open>Properties of the date flag\<close>

lemma is_digit_char_not_sign: "is_digit_char c \<Longrightarrow> c \<noteq> CHR ''-'' \<and> c \<noteq> CHR ''+''"
  by (auto simp: is_digit_char_def)

lemma isDigit_Cons0: "isDigit (c # cs) 0 = is_digit_char c"
  by (simp add: isDigit_def is_digit_char_def)

lemma isDigit_Cons1: "isDigit (a # c # cs) (Suc 0) = is_digit_char c"
  by (simp add: isDigit_def is_digit_char_def)

lemma isDigit_Nil: "isDigit [] i = False"
  by (simp add: isDigit_def)

lemma isDigit_single1: "isDigit [a] (Suc 0) = False"
  by (simp add: isDigit_def)

lemma getnum_fixed:
  "getnum s True = Some (n, r) \<longleftrightarrow>
     (\<exists>a b. s = a # b # r \<and> is_digit_char a \<and> is_digit_char b \<and> n = digitVal a * 10 + digitVal b)"
proof (cases s)
  case Nil
  then show ?thesis by (simp add: getnum_def isDigit_Nil)
next
  case (Cons a s')
  show ?thesis
  proof (cases s')
    case Nil
    with Cons show ?thesis by (simp add: getnum_def isDigit_Cons0 isDigit_single1)
  next
    case (Cons b s'')
    with \<open>s = a # s'\<close> show ?thesis
      by (auto simp: getnum_def isDigit_Cons0 isDigit_Cons1)
  qed
qed

lemma skip_hyphen: "skip s ''-'' = Some r \<longleftrightarrow> s = CHR ''-'' # r"
  by (cases s) auto

lemma leadingInt_nondigit: "\<not> is_digit_char c \<Longrightarrow> leadingInt x (c # cs) = (x, c # cs)"
  by (auto simp: is_digit_char_def)

lemma leadingInt_digit: "is_digit_char c \<Longrightarrow> leadingInt x (c # cs) = leadingInt (x * 10 + digitVal c) cs"
  by (simp add: is_digit_char_def)

lemma leadingInt_rest: "snd (leadingInt x cs) = [] \<longleftrightarrow> (\<forall>c \<in> set cs. is_digit_char c)"
proof (induction cs arbitrary: x)
  case Nil then show ?case by simp
next
  case (Cons c cs)
  show ?case
  proof (cases "is_digit_char c")
    case True
    then show ?thesis using Cons.IH [of "x * 10 + digitVal c"]
      by (simp add: leadingInt_digit del: leadingInt.simps(2))
  next
    case False
    then show ?thesis by (simp add: leadingInt_nondigit del: leadingInt.simps(2))
  qed
qed

lemma atoi_four:
  assumes "is_digit_char a"
  shows "atoi [a, b, c, d] =
           (if is_digit_char b \<and> is_digit_char c \<and> is_digit_char d
            then Some (int (digitVal a * 1000 + digitVal b * 100 + digitVal c * 10 + digitVal d))
            else None)"
proof -
  have sign: "a \<noteq> CHR ''-''" "a \<noteq> CHR ''+''"
    using assms is_digit_char_not_sign by auto
  show ?thesis
  proof (cases "is_digit_char b \<and> is_digit_char c \<and> is_digit_char d")
    case True
    then show ?thesis using assms sign
      by (simp add: atoi_def leadingInt_digit del: leadingInt.simps(2))
  next
    case False
    have "snd (leadingInt 0 [a, b, c, d]) \<noteq> []"
      using False assms by (simp add: leadingInt_rest del: leadingInt.simps(2))
    then show ?thesis using False sign
      by (cases "leadingInt 0 [a, b, c, d]") (simp add: atoi_def del: leadingInt.simps(2))
  qed
qed


lemma Parse_myTimeLayout_wellformed:
  assumes "is_YYYY_MM_DD s"
  shows "Parse_myTimeLayout s =
           (if month_of s \<le> 0 \<or> 12 < month_of s
            then Inl (ParseError myTimeLayout s (OutOfRange ''month''))
            else if day_of s < 1 \<or> day_of s > daysIn (month_of s) (year_of s)
            then Inl (ParseError myTimeLayout s (OutOfRange ''day''))
            else Inr (Date (year_of s) (month_of s) (day_of s)))"
proof -
  from assms obtain y1 y2 y3 y4 m1 m2 d1 d2 where
    s: "s = [y1, y2, y3, y4, CHR ''-'', m1, m2, CHR ''-'', d1, d2]" and
    dig: "is_digit_char y1" "is_digit_char y2" "is_digit_char y3" "is_digit_char y4"
         "is_digit_char m1" "is_digit_char m2" "is_digit_char d1" "is_digit_char d2"
    by (elim is_YYYY_MM_DD.elims) auto
  have g1: "getnum [m1, m2, CHR ''-'', d1, d2] True
              = Some (digitVal m1 * 10 + digitVal m2, [CHR ''-'', d1, d2])"
    using dig by (simp add: getnum_fixed)
  have g2: "getnum [d1, d2] True = Some (digitVal d1 * 10 + digitVal d2, [])"
    using dig by (simp add: getnum_fixed)
  show ?thesis
    unfolding s
    using dig
    by (simp add: Parse_myTimeLayout_def isDigit_Cons0 atoi_four g1 g2
          year_of_def month_of_def day_of_def)
qed

lemma Parse_myTimeLayout_Inr_wellformed:
  assumes "Parse_myTimeLayout s = Inr t"
  shows "is_YYYY_MM_DD s"
proof -
  from assms have len: "\<not> length s < 4" and d0: "isDigit s 0"
    by (auto simp: Parse_myTimeLayout_def split: if_splits)
  from len obtain y1 y2 y3 y4 rest where s: "s = y1 # y2 # y3 # y4 # rest"
    by (cases s; cases "tl s"; cases "tl (tl s)"; cases "tl (tl (tl s))") auto
  from d0 s have dy1: "is_digit_char y1"
    by (simp add: isDigit_Cons0)
  from assms s dy1 obtain year where
    at: "atoi [y1, y2, y3, y4] = Some year"
    by (auto simp: Parse_myTimeLayout_def isDigit_Cons0 split: if_splits option.splits)
  from at dy1 have dy: "is_digit_char y2" "is_digit_char y3" "is_digit_char y4"
    by (auto simp: atoi_four split: if_splits)
  from assms s dy1 at obtain v1 where sk1: "skip rest ''-'' = Some v1"
    by (auto simp: Parse_myTimeLayout_def isDigit_Cons0 split: if_splits option.splits)
  then have rest: "rest = CHR ''-'' # v1" by (simp add: skip_hyphen)
  from assms s dy1 at sk1 obtain month v2 where g1: "getnum v1 True = Some (month, v2)"
    by (auto simp: Parse_myTimeLayout_def isDigit_Cons0 split: if_splits option.splits)
  then obtain m1 m2 where v1: "v1 = m1 # m2 # v2" and dm: "is_digit_char m1" "is_digit_char m2"
    by (auto simp: getnum_fixed)
  from assms s dy1 at sk1 g1 obtain v3 where sk2: "skip v2 ''-'' = Some v3"
    by (auto simp: Parse_myTimeLayout_def isDigit_Cons0 split: if_splits option.splits)
  then have v2: "v2 = CHR ''-'' # v3" by (simp add: skip_hyphen)
  from assms s dy1 at sk1 g1 sk2 obtain day v4 where g2: "getnum v3 True = Some (day, v4)"
    by (auto simp: Parse_myTimeLayout_def isDigit_Cons0 split: if_splits option.splits)
  then obtain d1 d2 where v3: "v3 = d1 # d2 # v4" and dd: "is_digit_char d1" "is_digit_char d2"
    by (auto simp: getnum_fixed)
  from assms s dy1 at sk1 g1 sk2 g2 have v4: "v4 = []"
    by (auto simp: Parse_myTimeLayout_def isDigit_Cons0 split: if_splits option.splits)
  show ?thesis
    using dy1 dy dm dd by (simp add: s rest v1 v2 v3 v4)
qed

lemma Parse_myTimeLayout_not_wellformed:
  "\<not> is_YYYY_MM_DD s \<Longrightarrow> \<exists>err. Parse_myTimeLayout s = Inl err"
  using Parse_myTimeLayout_Inr_wellformed [of s] by (cases "Parse_myTimeLayout s") auto

text \<open>
  Claim C7.  \<^verbatim>\<open>myTime.Set\<close> accepts a value exactly when it consists of four digits, a
  hyphen, two digits, a hyphen and two digits that name a day of the calendar, and it
  then stores that date.  Every other value (another order of the fields, another
  separator, a missing or additional character, a month or a day that does not exist) is
  answered with an error and leaves the stored time as it was; so whenever \<^verbatim>\<open>Set\<close>
  returns nil the stored time is the date that the value spells.
\<close>

theorem myTime_Set_accepts_YYYY_MM_DD:
  "(is_YYYY_MM_DD s \<and> calendar_date (year_of s) (month_of s) (day_of s) \<longrightarrow>
      myTime_Set t s = (Date (year_of s) (month_of s) (day_of s), None))
   \<and> (\<not> is_YYYY_MM_DD s \<longrightarrow> (\<exists>err. myTime_Set t s = (t, Some err)))
   \<and> (is_YYYY_MM_DD s \<and> \<not> calendar_date (year_of s) (month_of s) (day_of s) \<longrightarrow>
      (\<exists>err. myTime_Set t s = (t, Some err)))
   \<and> (snd (myTime_Set t s) = None \<longrightarrow>
      is_YYYY_MM_DD s \<and> calendar_date (year_of s) (month_of s) (day_of s)
      \<and> fst (myTime_Set t s) = Date (year_of s) (month_of s) (day_of s))"
proof (cases "is_YYYY_MM_DD s")
  case True
  note wf = Parse_myTimeLayout_wellformed [OF True]
  show ?thesis
  proof (cases "calendar_date (year_of s) (month_of s) (day_of s)")
    case good: True
    then have "Parse_myTimeLayout s = Inr (Date (year_of s) (month_of s) (day_of s))"
      by (auto simp: wf calendar_date_def)
    then show ?thesis using True good by (simp add: myTime_Set_def)
  next
    case bad: False
    then have "\<exists>err. Parse_myTimeLayout s = Inl err"
      by (auto simp: wf calendar_date_def)
    then show ?thesis using True bad by (auto simp: myTime_Set_def)
  qed
next
  case False
  then obtain err where "Parse_myTimeLayout s = Inl err"
    using Parse_myTimeLayout_not_wellformed by blast
  then show ?thesis using False by (simp add: myTime_Set_def)
qed

lemmas date_eval = is_digit_char_def calendar_date_def year_of_def month_of_def day_of_def
  digitVal_def daysIn_def isLeap_def daysBefore_def Date_def

theorem myTime_Set_accepts_YYYY_MM_DD_witness:
  "myTime_Set 0 ''2020-02-29'' = (63718531200 * 1000000000, None)
   \<and> myTime_Set 0 ''1970-01-01'' = (62135596800 * 1000000000, None)
   \<and> (\<exists>err. myTime_Set 0 ''01-01-2020'' = (0, Some err))
   \<and> (\<exists>err. myTime_Set 0 ''2020/01/01'' = (0, Some err))
   \<and> (\<exists>err. myTime_Set 0 ''2021-02-29'' = (0, Some err))"
  using myTime_Set_accepts_YYYY_MM_DD [of "''2020-02-29''" 0]
        myTime_Set_accepts_YYYY_MM_DD [of "''1970-01-01''" 0]
        myTime_Set_accepts_YYYY_MM_DD [of "''01-01-2020''" 0]
        myTime_Set_accepts_YYYY_MM_DD [of "''2020/01/01''" 0]
        myTime_Set_accepts_YYYY_MM_DD [of "''2021-02-29''" 0]
  by (simp add: date_eval)

text \<open>
  The date \<^verbatim>\<open>0001-01-01\<close> is accepted and is Go's zero time, the value of a date flag
  that was never set.
\<close>

lemma zero_time_date:
  "myTime_Set t ''0001-01-01'' = (0, None) \<and> IsZero (fst (myTime_Set t ''0001-01-01''))"
proof -
  have "is_YYYY_MM_DD ''0001-01-01''"
    by (simp add: is_digit_char_def)
  from Parse_myTimeLayout_wellformed [OF this]
  have "Parse_myTimeLayout ''0001-01-01'' = Inr 0"
    by (simp add: date_eval)
  then show ?thesis
    by (simp add: myTime_Set_def IsZero_def)
qed

text \<open>
  No other accepted value gives the zero time: the layout has no sign, so the year is
  not negative, and from year 0 on the only day whose number is 0 is January 1 of
  year 1.
\<close>

lemma month_cases:
  assumes "1 \<le> (month::nat)" "month \<le> 12"
  shows "month = 1 \<or> month = 2 \<or> month = 3 \<or> month = 4 \<or> month = 5 \<or> month = 6
         \<or> month = 7 \<or> month = 8 \<or> month = 9 \<or> month = 10 \<or> month = 11 \<or> month = 12"
  using assms by arith

lemma Date_zero_iff:
  assumes "0 \<le> year" "calendar_date year month day"
  shows "Date year month day = 0 \<longleftrightarrow> year = 1 \<and> month = 1 \<and> day = 1"
proof -
  define n where
    "n = 365 * (year - 1) + (year - 1) div 4 - (year - 1) div 100 + (year - 1) div 400
           + int (daysBefore ! (month - 1)) + (if isLeap year \<and> 3 \<le> month then 1 else 0)
           + (int day - 1)"
  have "Date year month day = n * 86400 * 1000000000"
    unfolding n_def by (simp only: Date_def Let_def)
  then have zero: "Date year month day = 0 \<longleftrightarrow> n = 0"
    by simp
  from assms(2) have m: "1 \<le> month" "month \<le> 12" and d: "1 \<le> day" "day \<le> daysIn month year"
    by (simp_all add: calendar_date_def)
  from assms(1) consider "year = 0" | "year = 1" | "2 \<le> year"
    by atomize_elim arith
  then show ?thesis
  proof cases
    case 1
    from month_cases [OF m] d have "n < 0"
      unfolding n_def 1 by (auto simp: daysBefore_def daysIn_def isLeap_def)
    with 1 zero show ?thesis by simp
  next
    case 2
    from month_cases [OF m] d have "n = 0 \<longleftrightarrow> month = 1 \<and> day = 1"
      unfolding n_def 2 by (auto simp: daysBefore_def isLeap_def)
    with 2 zero show ?thesis by simp
  next
    case 3
    have "(year - 1) div 100 \<le> (year - 1) div 4"
      using 3 by (intro zdiv_mono2) simp_all
    moreover have "0 \<le> (year - 1) div 400"
      using 3 by simp
    ultimately have "0 < n"
      using 3 by (simp add: n_def)
    with 3 zero show ?thesis by simp
  qed
qed

lemma digitVal_zero: "is_digit_char c \<Longrightarrow> digitVal c = 0 \<longleftrightarrow> c = CHR ''0''"
proof -
  assume "is_digit_char c"
  then have "digitVal c = 0 \<longleftrightarrow> (of_char c :: nat) = 48"
    unfolding is_digit_char_def digitVal_def by arith
  then have "digitVal c = 0 \<longleftrightarrow> (of_char c :: nat) = of_char (CHR ''0'')"
    by simp
  then show ?thesis by (simp only: of_char_eq_iff)
qed

lemma digitVal_one: "is_digit_char c \<Longrightarrow> digitVal c = 1 \<longleftrightarrow> c = CHR ''1''"
proof -
  assume "is_digit_char c"
  then have "digitVal c = 1 \<longleftrightarrow> (of_char c :: nat) = 49"
    unfolding is_digit_char_def digitVal_def by arith
  then have "digitVal c = 1 \<longleftrightarrow> (of_char c :: nat) = of_char (CHR ''1'')"
    by simp
  then show ?thesis by (simp only: of_char_eq_iff)
qed

lemma two_digits_one:
  "a * 10 + b = (1::nat) \<longleftrightarrow> a = 0 \<and> b = 1"
  by (cases a) simp_all

lemma four_digits_one:
  "a * 1000 + b * 100 + c * 10 + d = (1::nat) \<longleftrightarrow> a = 0 \<and> b = 0 \<and> c = 0 \<and> d = 1"
  by (cases a; cases b; cases c) simp_all

lemma first_day_spelling:
  assumes "is_YYYY_MM_DD s"
  shows "year_of s = 1 \<and> month_of s = 1 \<and> day_of s = 1 \<longleftrightarrow> s = ''0001-01-01''"
proof -
  from assms obtain y1 y2 y3 y4 m1 m2 d1 d2 where
    s: "s = [y1, y2, y3, y4, CHR ''-'', m1, m2, CHR ''-'', d1, d2]" and
    dig: "is_digit_char y1" "is_digit_char y2" "is_digit_char y3" "is_digit_char y4"
         "is_digit_char m1" "is_digit_char m2" "is_digit_char d1" "is_digit_char d2"
    by (elim is_YYYY_MM_DD.elims) auto
  have "year_of s = 1 \<longleftrightarrow>
          digitVal y1 * 1000 + digitVal y2 * 100 + digitVal y3 * 10 + digitVal y4 = 1"
    unfolding year_of_def s by (simp only: nth_Cons_0 nth_Cons_Suc nth_Cons_numeral) auto
  then have y: "year_of s = 1 \<longleftrightarrow> y1 = CHR ''0'' \<and> y2 = CHR ''0'' \<and> y3 = CHR ''0'' \<and> y4 = CHR ''1''"
    using four_digits_one [of "digitVal y1" "digitVal y2" "digitVal y3" "digitVal y4"] dig
    by (simp add: digitVal_zero digitVal_one del: One_nat_def)
  have m: "month_of s = 1 \<longleftrightarrow> m1 = CHR ''0'' \<and> m2 = CHR ''1''"
    using two_digits_one [of "digitVal m1" "digitVal m2"] dig
    by (simp add: month_of_def s digitVal_zero digitVal_one del: One_nat_def)
  have d: "day_of s = 1 \<longleftrightarrow> d1 = CHR ''0'' \<and> d2 = CHR ''1''"
    using two_digits_one [of "digitVal d1" "digitVal d2"] dig
    by (simp add: day_of_def s digitVal_zero digitVal_one del: One_nat_def)
  show ?thesis
    unfolding y m d by (auto simp: s)
qed

lemma myTime_Set_zero_iff:
  assumes "snd (myTime_Set t s) = None"
  shows "IsZero (fst (myTime_Set t s)) \<longleftrightarrow> s = ''0001-01-01''"
proof -
  from assms obtain t2 where p: "Parse_myTimeLayout s = Inr t2"
    by (cases "Parse_myTimeLayout s") (simp_all add: myTime_Set_def)
  then have wf: "is_YYYY_MM_DD s"
    by (rule Parse_myTimeLayout_Inr_wellformed)
  from Parse_myTimeLayout_wellformed [OF wf] p
  have cal: "calendar_date (year_of s) (month_of s) (day_of s)"
    and t2: "t2 = Date (year_of s) (month_of s) (day_of s)"
    by (auto simp: calendar_date_def split: if_splits)
  have "0 \<le> year_of s"
    by (simp add: year_of_def)
  from Date_zero_iff [OF this cal] first_day_spelling [OF wf]
  show ?thesis
    by (simp add: myTime_Set_def p t2 IsZero_def)
qed

lemma leap_day_date: "myTime_Set t ''2020-02-29'' = (63718531200 * 1000000000, None)"
proof -
  have "is_YYYY_MM_DD ''2020-02-29''"
    by (simp add: is_digit_char_def)
  from Parse_myTimeLayout_wellformed [OF this]
  have "Parse_myTimeLayout ''2020-02-29'' = Inr (63718531200 * 1000000000)"
    by (simp add: date_eval)
  then show ?thesis
    by (simp add: myTime_Set_def)
qed

section \<open>Properties of the filter of listRepairs\<close>

lemma switch_generic:
  "(if c1 then Some True else if c2 then Some True else if c3 then Some True
    else if c4 then Some True else if c5 then Some True
    else if (\<not> za \<or> \<not> zb) \<and> st = None then Some True
    else
      case (if \<not> za then (case st of None \<Rightarrow> None | Some t \<Rightarrow> Some (bef t)) else Some False) of
        None \<Rightarrow> None
      | Some True \<Rightarrow> Some True
      | Some False \<Rightarrow>
        (case (if \<not> zb then (case st of None \<Rightarrow> None | Some t \<Rightarrow> Some (aft t)) else Some False) of
           None \<Rightarrow> None
         | Some True \<Rightarrow> Some True
         | Some False \<Rightarrow> Some False))
   = Some ((c1 \<or> c2 \<or> c3 \<or> c4 \<or> c5)
           \<or> ((\<not> za \<or> \<not> zb) \<and> st = None)
           \<or> (\<not> za \<and> (case st of None \<Rightarrow> False | Some t \<Rightarrow> bef t))
           \<or> (\<not> zb \<and> (case st of None \<Rightarrow> False | Some t \<Rightarrow> aft t)))"
  by (cases st; cases c1; cases c2; cases c3; cases c4; cases c5; cases za; cases zb)
     (simp_all split: bool.split)

lemma listRepairs_skip_eq:
  "listRepairs_skip fl run =
     Some (((flCluster fl \<noteq> [] \<and> flCluster fl \<noteq> ClusterName run)
            \<or> (flKeyspace fl \<noteq> [] \<and> flKeyspace fl \<noteq> KeyspaceName run)
            \<or> (length (flTables fl) > 0 \<and> contains (ColumnFamilies run) (flTables fl))
            \<or> (flOwner fl \<noteq> [] \<and> flOwner fl \<noteq> Owner run)
            \<or> (flCause fl \<noteq> [] \<and> flCause fl \<noteq> Cause run))
           \<or> ((\<not> IsZero (flStartAfter fl) \<or> \<not> IsZero (flStartBefore fl))
                \<and> StartTime run = None)
           \<or> (\<not> IsZero (flStartAfter fl)
                \<and> (case StartTime run of None \<Rightarrow> False
                    | Some t \<Rightarrow> Before t (flStartAfter fl)))
           \<or> (\<not> IsZero (flStartBefore fl)
                \<and> (case StartTime run of None \<Rightarrow> False
                    | Some t \<Rightarrow> After t (flStartBefore fl))))"
  unfolding listRepairs_skip_def StartTime_Before_def StartTime_After_def
  by (rule switch_generic)

lemma listRepairs_skip_no_panic: "listRepairs_skip fl run \<noteq> None"
  by (simp only: listRepairs_skip_eq) simp

lemma listRepairs_skip_absent:
  assumes "\<not> IsZero (flStartAfter fl) \<or> \<not> IsZero (flStartBefore fl)" "StartTime run = None"
  shows "listRepairs_skip fl run = Some True"
  using assms by (simp only: listRepairs_skip_eq) simp

lemma listRepairs_skip_tables:
  assumes "length (flTables fl) > 0" "set (ColumnFamilies run) \<inter> set (flTables fl) \<noteq> {}"
  shows "listRepairs_skip fl run = Some True"
  using assms by (simp only: listRepairs_skip_eq contains_iff) simp


lemma listRepairs_skip_present:
  assumes "listRepairs_skip (fl\<lparr>flStartAfter := 0, flStartBefore := 0\<rparr>) run = Some False"
    and "StartTime run = Some st"
  shows "listRepairs_skip fl run =
           Some (\<not> ((IsZero (flStartAfter fl) \<or> flStartAfter fl \<le> st)
                     \<and> (IsZero (flStartBefore fl) \<or> st \<le> flStartBefore fl)))"
proof -
  define other where
    "other = ((flCluster fl \<noteq> [] \<and> flCluster fl \<noteq> ClusterName run)
            \<or> (flKeyspace fl \<noteq> [] \<and> flKeyspace fl \<noteq> KeyspaceName run)
            \<or> (length (flTables fl) > 0 \<and> contains (ColumnFamilies run) (flTables fl))
            \<or> (flOwner fl \<noteq> [] \<and> flOwner fl \<noteq> Owner run)
            \<or> (flCause fl \<noteq> [] \<and> flCause fl \<noteq> Cause run))"
  have "listRepairs_skip (fl\<lparr>flStartAfter := 0, flStartBefore := 0\<rparr>) run
          = Some (other \<or> False)"
    unfolding listRepairs_skip_eq other_def by (simp add: IsZero_def)
  with assms(1) have no: "\<not> other" by simp
  have "listRepairs_skip fl run
          = Some (other
                  \<or> ((\<not> IsZero (flStartAfter fl) \<or> \<not> IsZero (flStartBefore fl))
                       \<and> StartTime run = None)
                  \<or> (\<not> IsZero (flStartAfter fl)
                       \<and> (case StartTime run of None \<Rightarrow> False
                           | Some t \<Rightarrow> Before t (flStartAfter fl)))
                  \<or> (\<not> IsZero (flStartBefore fl)
                       \<and> (case StartTime run of None \<Rightarrow> False
                           | Some t \<Rightarrow> After t (flStartBefore fl))))"
    unfolding other_def by (rule listRepairs_skip_eq)
  then show ?thesis
    using no assms(2) by (auto simp: Before_def After_def)
qed


lemma listRepairs_loop_filter:
  "listRepairs_loop fl runs =
     (map (\<lambda>run. Printf (''%+v'' @ nl) [ArgRun run])
        (filter (\<lambda>run. listRepairs_skip fl run = Some False) runs), Return None)"
proof (induction runs)
  case Nil
  then show ?case by simp
next
  case (Cons run runs)
  obtain b where b: "listRepairs_skip fl run = Some b"
    using listRepairs_skip_no_panic [of fl run] by auto
  show ?case
  proof (cases b)
    case True
    with b Cons.IH show ?thesis by simp
  next
    case False
    with b Cons.IH show ?thesis by simp
  qed
qed

text \<open>
  Claim C3, for the bounds that the loop of \<^verbatim>\<open>listRepairs\<close> takes into account.  The
  loop tests a bound with \<^verbatim>\<open>IsZero\<close>: a bound takes part in the filter when its flag
  holds a time other than the zero time.  If one of the two bounds takes part and the
  run has no start time, the run is skipped.  If the run has a start time and passes
  the filters other than the dates (it is not skipped once both bounds are reset), it is
  skipped exactly when its start time lies before the lower bound or after the upper
  bound, each only if it takes part: a start time equal to a bound passes.  The loop
  prints exactly the runs that are not skipped, and never panics.  A date flag that
  \<^verbatim>\<open>Set\<close> has accepted holds the zero time exactly when the value was
  \<^verbatim>\<open>0001-01-01\<close>; so a bound supplied as any other date takes part, and a bound
  supplied as \<^verbatim>\<open>0001-01-01\<close> is treated like a bound that was not supplied.
\<close>

theorem listRepairs_date_range_filter:
  "((\<not> IsZero (flStartAfter fl) \<or> \<not> IsZero (flStartBefore fl)) \<and> StartTime run = None \<longrightarrow>
      listRepairs_skip fl run = Some True)
   \<and> (listRepairs_skip (fl\<lparr>flStartAfter := 0, flStartBefore := 0\<rparr>) run = Some False
        \<and> StartTime run = Some st \<longrightarrow>
      listRepairs_skip fl run =
        Some (\<not> ((IsZero (flStartAfter fl) \<or> flStartAfter fl \<le> st)
                  \<and> (IsZero (flStartBefore fl) \<or> st \<le> flStartBefore fl))))
   \<and> fst (listRepairs_loop fl runs) =
        map (\<lambda>run. Printf (''%+v'' @ nl) [ArgRun run])
          (filter (\<lambda>run. listRepairs_skip fl run = Some False) runs)
   \<and> snd (listRepairs_loop fl runs) = Return None
   \<and> (snd (myTime_Set t s) = None \<longrightarrow>
        (IsZero (fst (myTime_Set t s)) \<longleftrightarrow> s = ''0001-01-01''))"
  using listRepairs_skip_absent [of fl run] listRepairs_skip_present [of fl run st]
    myTime_Set_zero_iff [of t s]
  by (simp add: listRepairs_loop_filter)

theorem listRepairs_date_range_filter_witness:
  "listRepairs_skip (flag_defaults\<lparr>flStartAfter := 5\<rparr>) example_run = Some True
   \<and> listRepairs_skip (flag_defaults\<lparr>flStartBefore := 9\<rparr>) example_run = Some True
   \<and> listRepairs_skip (flag_defaults\<lparr>flStartAfter := 5, flStartBefore := 9\<rparr>)
        (example_run\<lparr>StartTime := Some 5\<rparr>) = Some False
   \<and> listRepairs_skip (flag_defaults\<lparr>flStartAfter := 5, flStartBefore := 9\<rparr>)
        (example_run\<lparr>StartTime := Some 9\<rparr>) = Some False
   \<and> listRepairs_skip (flag_defaults\<lparr>flStartAfter := 5, flStartBefore := 9\<rparr>)
        (example_run\<lparr>StartTime := Some 4\<rparr>) = Some True
   \<and> listRepairs_skip (flag_defaults\<lparr>flStartAfter := 5, flStartBefore := 9\<rparr>)
        (example_run\<lparr>StartTime := Some 10\<rparr>) = Some True
   \<and> listRepairs_skip (flag_defaults\<lparr>flStartBefore := 9\<rparr>)
        (example_run\<lparr>StartTime := Some 4\<rparr>) = Some False
   \<and> snd (myTime_Set 0 ''2020-02-29'') = None
   \<and> \<not> IsZero (fst (myTime_Set 0 ''2020-02-29''))
   \<and> snd (myTime_Set 0 ''0001-01-01'') = None
   \<and> IsZero (fst (myTime_Set 0 ''0001-01-01''))"
  using listRepairs_date_range_filter [of "flag_defaults\<lparr>flStartAfter := 5\<rparr>" example_run]
    listRepairs_date_range_filter [of "flag_defaults\<lparr>flStartBefore := 9\<rparr>" example_run]
    listRepairs_date_range_filter [of "flag_defaults\<lparr>flStartAfter := 5, flStartBefore := 9\<rparr>"
      "example_run\<lparr>StartTime := Some 5\<rparr>" 5]
    listRepairs_date_range_filter [of "flag_defaults\<lparr>flStartAfter := 5, flStartBefore := 9\<rparr>"
      "example_run\<lparr>StartTime := Some 9\<rparr>" 9]
    listRepairs_date_range_filter [of "flag_defaults\<lparr>flStartAfter := 5, flStartBefore := 9\<rparr>"
      "example_run\<lparr>StartTime := Some 4\<rparr>" 4]
    listRepairs_date_range_filter [of "flag_defaults\<lparr>flStartAfter := 5, flStartBefore := 9\<rparr>"
      "example_run\<lparr>StartTime := Some 10\<rparr>" 10]
    listRepairs_date_range_filter [of "flag_defaults\<lparr>flStartBefore := 9\<rparr>"
      "example_run\<lparr>StartTime := Some 4\<rparr>" 4 "[]" 0 "''2020-02-29''"]
    listRepairs_date_range_filter [of "flag_defaults\<lparr>flStartBefore := 9\<rparr>"
      "example_run\<lparr>StartTime := Some 4\<rparr>" 4 "[]" 0 "''0001-01-01''"]
  by (simp add: flag_defaults_def example_run_def IsZero_def listRepairs_skip_eq
        Before_def After_def leap_day_date zero_time_date)

text \<open>
  With ``supplied'' read as ``given on the command line'', the claim fails at the bound
  \<^verbatim>\<open>0001-01-01\<close>.  \<^verbatim>\<open>Set\<close> accepts this value for \<^verbatim>\<open>-start-before\<close>, and then a run
  without a start time is not skipped, and neither is a run that started on
  2020-01-01, which is after the bound.
\<close>

theorem listRepairs_date_bound_zero_counterexample:
  "snd (myTime_Set 0 ''0001-01-01'') = None
   \<and> StartTime example_run = None
   \<and> listRepairs_skip (flag_defaults\<lparr>flStartBefore := fst (myTime_Set 0 ''0001-01-01'')\<rparr>)
        example_run = Some False
   \<and> After (Date 2020 1 1) (fst (myTime_Set 0 ''0001-01-01''))
   \<and> listRepairs_skip (flag_defaults\<lparr>flStartBefore := fst (myTime_Set 0 ''0001-01-01'')\<rparr>)
        (example_run\<lparr>StartTime := Some (Date 2020 1 1)\<rparr>) = Some False"
  by (simp add: zero_time_date listRepairs_skip_eq flag_defaults_def example_run_def
        IsZero_def After_def date_eval)

lemma listRepairs_loop_not_printed:
  assumes "listRepairs_skip fl run = Some True"
  shows "Printf (''%+v'' @ nl) [ArgRun run] \<notin> set (fst (listRepairs_loop fl runs))"
  using assms by (auto simp: listRepairs_loop_filter)

text \<open>
  Claim C1 asks that a run whose column families overlap the requested tables pass the
  tables filter of \<^verbatim>\<open>listRepairs\<close>.  The source does the opposite: with a non-empty
  \<^verbatim>\<open>-tables\<close> filter, every run that has one of the requested tables among its column
  families is skipped and never printed, whatever the other filters say.
  \<^verbatim>\<open>printCluster\<close> applies the same test the other way round and shows such a run.
\<close>

theorem listRepairs_skips_requested_tables:
  "length (flTables fl) > 0 \<and> set (ColumnFamilies run) \<inter> set (flTables fl) \<noteq> {} \<longrightarrow>
     listRepairs_skip fl run = Some True
     \<and> Printf (''%+v'' @ nl) [ArgRun run] \<notin> set (fst (listRepairs_loop fl runs))
     \<and> printCluster_run_shown
          \<lparr> ShowRuns = True, ShowSchedules = False, FilterCFs = flTables fl,
            FilterRunState = [], FilterScheduleState = [] \<rparr> run"
  using listRepairs_skip_tables [of fl run] listRepairs_loop_not_printed [of fl run runs]
  by (simp add: printCluster_run_shown_def contains_iff)

theorem listRepairs_skips_requested_tables_witness:
  "listRepairs_skip (flag_defaults\<lparr>flTables := [''t1'']\<rparr>) example_run = Some True
   \<and> listRepairs_loop (flag_defaults\<lparr>flTables := [''t1'']\<rparr>) [example_run] = ([], Return None)
   \<and> printCluster_run_shown
        \<lparr> ShowRuns = True, ShowSchedules = False, FilterCFs = [''t1''],
          FilterRunState = [], FilterScheduleState = [] \<rparr> example_run
   \<and> listRepairs_loop (flag_defaults\<lparr>flTables := [''other'']\<rparr>) [example_run]
       = ([Printf (''%+v'' @ nl) [ArgRun example_run]], Return None)"
  using listRepairs_skips_requested_tables
          [of "flag_defaults\<lparr>flTables := [''t1'']\<rparr>" example_run "[example_run]"]
  by (simp add: flag_defaults_def example_run_def listRepairs_skip_eq IsZero_def
        contains_iff listRepairs_loop_filter)

section \<open>Properties of the dispatch\<close>

lemma findCommand_cases:
  "findCommand name =
     (if name = ''add-cluster'' then Some AddCluster
      else if name = ''view-cluster'' then Some ViewCluster
      else if name = ''list-clusters'' then Some ListClusters
      else if name = ''add-repair'' then Some AddRepair
      else if name = ''view-repair'' then Some ViewRepair
      else if name = ''list-repairs'' then Some ListRepairs
      else if name = ''pause-repair'' then Some PauseRepair
      else if name = ''resume-repair'' then Some ResumeRepair
      else if name = ''delete-repair'' then Some DeleteRepair
      else if name = ''add-schedule'' then Some AddSchedule
      else if name = ''view-schedule'' then Some ViewSchedule
      else if name = ''list-schedules'' then Some ListSchedules
      else if name = ''pause-schedule'' then Some PauseSchedule
      else if name = ''resume-schedule'' then Some ResumeSchedule
      else if name = ''delete-schedule'' then Some DeleteSchedule
      else None)"
  by (simp add: findCommand_def commands_def)

text \<open>
  Claim C8 asks for a subcommand name under which the dispatch calls \<^verbatim>\<open>nextSchedule\<close>.
  There is none: \<^verbatim>\<open>findCommand\<close> returns one of the fifteen functions registered in
  \<^verbatim>\<open>commands\<close> or nil, never \<^verbatim>\<open>nextSchedule\<close>, and the name \<^verbatim>\<open>next-schedule\<close>, which the
  function gives to its flag set, ends in the fatal error for an invalid command.
\<close>

theorem nextSchedule_not_dispatched:
  "findCommand name \<noteq> Some NextSchedule
   \<and> main_dispatch ev ''next-schedule'' args = ([], FatalInvalidCommand ''next-schedule'')"
  by (simp add: findCommand_cases main_dispatch_def)

section \<open>Properties of the subcommands\<close>

lemma viewCluster_help:
  "Parse ev ''view-cluster'' args = ErrHelp \<Longrightarrow> viewCluster ev args = ([], Return None)"
  by (simp add: viewCluster_def)

lemma addCluster_help:
  "Parse ev ''add-cluster'' args = ErrHelp \<Longrightarrow> addCluster ev args = ([], Return None)"
  by (simp add: addCluster_def)

lemma listRepairs_help:
  "Parse ev ''list-repairs'' args = ErrHelp \<Longrightarrow> listRepairs ev args = ([], Return None)"
  by (simp add: listRepairs_def)

lemma viewRepair_help:
  "Parse ev ''view-repair'' args = ErrHelp \<Longrightarrow> viewRepair ev args = ([], Return None)"
  by (simp add: viewRepair_def)

lemma pauseRepair_help:
  "Parse ev ''pause-repair'' args = ErrHelp \<Longrightarrow> pauseRepair ev args = ([], Return None)"
  by (simp add: pauseRepair_def)

lemma resumeRepair_help:
  "Parse ev ''resume-repair'' args = ErrHelp \<Longrightarrow> resumeRepair ev args = ([], Return None)"
  by (simp add: resumeRepair_def)

lemma deleteRepair_help:
  "Parse ev ''delete-repair'' args = ErrHelp \<Longrightarrow> deleteRepair ev args = ([], Return None)"
  by (simp add: deleteRepair_def)

lemma addRepair_help:
  "Parse ev ''add-repair'' args = ErrHelp \<Longrightarrow> addRepair ev args = ([], Return None)"
  by (simp add: addRepair_def)

lemma addSchedule_help:
  "Parse ev ''add-schedule'' args = ErrHelp \<Longrightarrow> addSchedule ev args = ([], Return None)"
  by (simp add: addSchedule_def)

lemma viewSchedule_help:
  "Parse ev ''view-schedule'' args = ErrHelp \<Longrightarrow> viewSchedule ev args = ([], Return None)"
  by (simp add: viewSchedule_def)

lemma nextSchedule_help:
  "Parse ev ''next-schedule'' args = ErrHelp \<Longrightarrow> nextSchedule ev args = ([], Return None)"
  by (simp add: nextSchedule_def)

lemma listSchedules_help:
  "Parse ev ''list-schedules'' args = ErrHelp \<Longrightarrow> listSchedules ev args = ([], Return None)"
  by (simp add: listSchedules_def)

lemma deleteSchedule_help:
  "Parse ev ''delete-schedule'' args = ErrHelp \<Longrightarrow> deleteSchedule ev args = ([], Return None)"
  by (simp add: deleteSchedule_def)

lemma pauseSchedule_help:
  "Parse ev ''pause-schedule'' args = ErrHelp \<Longrightarrow> pauseSchedule ev args = ([], Return None)"
  by (simp add: pauseSchedule_def)

lemma resumeSchedule_help:
  "Parse ev ''resume-schedule'' args = ErrHelp \<Longrightarrow> resumeSchedule ev args = ([], Return None)"
  by (simp add: resumeSchedule_def)

text \<open>
  Claim C9.  Every subcommand that parses flags returns nil as soon as the parser
  signals \<^verbatim>\<open>flag.ErrHelp\<close>: it sends no request and writes nothing.  This differs from a
  parse error, which is handed back to the caller (shown for \<^verbatim>\<open>viewRepair\<close>; the other
  subcommands have the same two cases).  \<^verbatim>\<open>listClusters\<close> declares no flag set and is
  therefore not among them.
\<close>

theorem help_returns_nil_without_request:
  "(Parse ev ''view-cluster'' args = ErrHelp \<longrightarrow> viewCluster ev args = ([], Return None))
   \<and> (Parse ev ''add-cluster'' args = ErrHelp \<longrightarrow> addCluster ev args = ([], Return None))
   \<and> (Parse ev ''list-repairs'' args = ErrHelp \<longrightarrow> listRepairs ev args = ([], Return None))
   \<and> (Parse ev ''view-repair'' args = ErrHelp \<longrightarrow> viewRepair ev args = ([], Return None))
   \<and> (Parse ev ''pause-repair'' args = ErrHelp \<longrightarrow> pauseRepair ev args = ([], Return None))
   \<and> (Parse ev ''resume-repair'' args = ErrHelp \<longrightarrow> resumeRepair ev args = ([], Return None))
   \<and> (Parse ev ''delete-repair'' args = ErrHelp \<longrightarrow> deleteRepair ev args = ([], Return None))
   \<and> (Parse ev ''add-repair'' args = ErrHelp \<longrightarrow> addRepair ev args = ([], Return None))
   \<and> (Parse ev ''add-schedule'' args = ErrHelp \<longrightarrow> addSchedule ev args = ([], Return None))
   \<and> (Parse ev ''view-schedule'' args = ErrHelp \<longrightarrow> viewSchedule ev args = ([], Return None))
   \<and> (Parse ev ''next-schedule'' args = ErrHelp \<longrightarrow> nextSchedule ev args = ([], Return None))
   \<and> (Parse ev ''list-schedules'' args = ErrHelp \<longrightarrow>
        listSchedules ev args = ([], Return None))
   \<and> (Parse ev ''delete-schedule'' args = ErrHelp \<longrightarrow>
        deleteSchedule ev args = ([], Return None))
   \<and> (Parse ev ''pause-schedule'' args = ErrHelp \<longrightarrow>
        pauseSchedule ev args = ([], Return None))
   \<and> (Parse ev ''resume-schedule'' args = ErrHelp \<longrightarrow>
        resumeSchedule ev args = ([], Return None))
   \<and> (\<forall>e. Parse ev ''view-repair'' args = ParseFailed e \<longrightarrow>
        viewRepair ev args = ([], Return (Some e)))"
  by (simp add: viewCluster_help addCluster_help listRepairs_help viewRepair_help
        pauseRepair_help resumeRepair_help deleteRepair_help addRepair_help addSchedule_help
        viewSchedule_help nextSchedule_help listSchedules_help deleteSchedule_help
        pauseSchedule_help resumeSchedule_help)
     (simp add: viewRepair_def)

lemmas example_env_eval = example_env_def not_found_def flag_defaults_def
  example_decode_list_def makeURL_def StatusOK_def StatusCreated_def E_def Str_def

theorem help_returns_nil_without_request_witness:
  "viewCluster (example_env flag_defaults not_found) [''-h''] = ([], Return None)
   \<and> addCluster (example_env flag_defaults not_found) [''-h''] = ([], Return None)
   \<and> listRepairs (example_env flag_defaults not_found) [''-h''] = ([], Return None)
   \<and> viewRepair (example_env flag_defaults not_found) [''-h''] = ([], Return None)
   \<and> pauseRepair (example_env flag_defaults not_found) [''-h''] = ([], Return None)
   \<and> resumeRepair (example_env flag_defaults not_found) [''-h''] = ([], Return None)
   \<and> deleteRepair (example_env flag_defaults not_found) [''-h''] = ([], Return None)
   \<and> addRepair (example_env flag_defaults not_found) [''-h''] = ([], Return None)
   \<and> addSchedule (example_env flag_defaults not_found) [''-h''] = ([], Return None)
   \<and> viewSchedule (example_env flag_defaults not_found) [''-h''] = ([], Return None)
   \<and> nextSchedule (example_env flag_defaults not_found) [''-h''] = ([], Return None)
   \<and> listSchedules (example_env flag_defaults not_found) [''-h''] = ([], Return None)
   \<and> deleteSchedule (example_env flag_defaults not_found) [''-h''] = ([], Return None)
   \<and> pauseSchedule (example_env flag_defaults not_found) [''-h''] = ([], Return None)
   \<and> resumeSchedule (example_env flag_defaults not_found) [''-h''] = ([], Return None)
   \<and> fst (listRepairs (example_env flag_defaults not_found) [])
       = [HTTPRequest ''GET'' ''http://reaper:8080/repair_run?'']"
  using help_returns_nil_without_request [of "example_env flag_defaults not_found" "[''-h'']"]
  by (simp add: example_env_eval listRepairs_def)

lemma listClusters_ignores_args: "listClusters ev args = listClusters ev []"
  by (simp add: listClusters_def)

lemma viewCluster_bad_status:
  assumes "Parse ev ''view-cluster'' args = Parsed fl" "Args fl \<noteq> []"
    and "RoundTrip ev ''GET'' (makeURL ev (''/cluster/'' @ Args fl ! 0)) = Inr resp"
    and "StatusCode resp \<noteq> StatusOK"
  shows "viewCluster ev args =
           ([HTTPRequest ''GET'' (makeURL ev (''/cluster/'' @ Args fl ! 0))],
            Return (Some (Str (Body resp))))"
  using assms by (cases "Args fl") (simp_all add: viewCluster_def Let_def)

lemma viewRepair_bad_status:
  assumes "Parse ev ''view-repair'' args = Parsed fl" "0 < flID fl"
    and "RoundTrip ev ''GET'' (makeURL ev (''/repair_run/'' @ Itoa ev (flID fl))) = Inr resp"
    and "StatusCode resp \<noteq> StatusOK"
  shows "viewRepair ev args =
           ([HTTPRequest ''GET'' (makeURL ev (''/repair_run/'' @ Itoa ev (flID fl)))],
            Return (Some (Str (Body resp))))"
  using assms by (simp add: viewRepair_def Let_def)

lemma callListSchedules_bad_status:
  assumes "RoundTrip ev ''GET'' (makeURL ev ''/repair_schedule'' @ ''?'' @ Encode ev qry)
             = Inr resp"
    and "StatusCode resp \<noteq> StatusOK"
  shows "callListSchedules ev qry =
           ([HTTPRequest ''GET'' (makeURL ev ''/repair_schedule'' @ ''?'' @ Encode ev qry)],
            Inl (Str (Body resp)))"
  using assms by (simp add: callListSchedules_def Let_def)

lemma addRepair_bad_status:
  assumes "Parse ev ''add-repair'' args = Parsed fl"
    and "flCluster fl \<noteq> []" "flKeyspace fl \<noteq> []" "flOwner fl \<noteq> []" "flCause fl \<noteq> []"
    and "\<forall>url. RoundTrip ev ''POST'' url = Inr resp"
    and "StatusCode resp \<noteq> StatusCreated"
  shows "snd (addRepair ev args) = Return (Some (Str (Body resp)))"
  using assms by (simp add: addRepair_def Let_def)

text \<open>
  Claim C5 asks every operation to turn a response with another status than the
  expected one into an error that carries the body, without decoding it.  The
  subcommands do so (lemmas above for \<^verbatim>\<open>viewCluster\<close>, \<^verbatim>\<open>viewRepair\<close>,
  \<^verbatim>\<open>callListSchedules\<close> and \<^verbatim>\<open>addRepair\<close>), except \<^verbatim>\<open>listClusters\<close>: whatever the
  status, it hands the body to the JSON decoder, and its result is either the decoder's
  error wrapped as an I/O error or, when the body decodes, the printed list and nil.  It
  is never the error made of the body.
\<close>

theorem listClusters_ignores_status:
  "RoundTrip ev ''GET'' (makeURL ev ''/cluster'') = Inr resp \<longrightarrow>
     snd (listClusters ev args) \<noteq> Return (Some (Str (Body resp)))
     \<and> listClusters ev args =
         (case DecodeStrings ev (Body resp) of
            Inl err \<Rightarrow>
              ([HTTPRequest ''GET'' (makeURL ev ''/cluster'')],
               Return (Some (E IO ''listClusters'' err)))
          | Inr res \<Rightarrow>
              ([HTTPRequest ''GET'' (makeURL ev ''/cluster''), Println (''All clusters:'' @ nl)]
               @ map Println res,
               Return None))"
  by (cases "DecodeStrings ev (Body resp)") (simp_all add: listClusters_def Let_def E_def Str_def)

theorem listClusters_ignores_status_witness:
  "listClusters (example_env flag_defaults not_found) []
     = ([HTTPRequest ''GET'' ''http://reaper:8080/cluster''],
        Return (Some (E IO ''listClusters'' (LibraryError ''invalid character''))))
   \<and> listClusters (example_env flag_defaults (Inr \<lparr> StatusCode = 500, Body = ''[]'' \<rparr>)) []
     = ([HTTPRequest ''GET'' ''http://reaper:8080/cluster'', Println (''All clusters:'' @ nl)],
        Return None)
   \<and> viewRepair (example_env (flag_defaults\<lparr>flID := 999\<rparr>) not_found) []
     = ([HTTPRequest ''GET'' ''http://reaper:8080/repair_run/999''],
        Return (Some (Str ''not found'')))"
  using listClusters_ignores_status [of "example_env flag_defaults not_found"
          "\<lparr> StatusCode = 404, Body = ''not found'' \<rparr>" "[]"]
        listClusters_ignores_status
          [of "example_env flag_defaults (Inr \<lparr> StatusCode = 500, Body = ''[]'' \<rparr>)"
          "\<lparr> StatusCode = 500, Body = ''[]'' \<rparr>" "[]"]
  by (simp add: example_env_def not_found_def flag_defaults_def example_decode_list_def
        makeURL_def StatusOK_def viewRepair_def)

section \<open>Properties of the sort\<close>

lemma swo_total:
  assumes "strict_weak_ordering_on S lessf" "a \<in> S" "b \<in> S"
  shows "lessf a b = Some True \<or> lessf a b = Some False"
proof -
  from assms(1) have "\<forall>a \<in> S. \<forall>b \<in> S. lessf a b \<noteq> None"
    unfolding strict_weak_ordering_on_def by blast
  with assms(2,3) have "lessf a b \<noteq> None" by simp
  then obtain r where "lessf a b = Some r" by auto
  then show ?thesis by (cases r) simp_all
qed

lemma swo_trans:
  assumes "strict_weak_ordering_on S lessf" "a \<in> S" "b \<in> S" "c \<in> S"
    "lessf a b = Some True" "lessf b c = Some True"
  shows "lessf a c = Some True"
proof -
  from assms(1) have "\<forall>a \<in> S. \<forall>b \<in> S. \<forall>c \<in> S.
      lessf a b = Some True \<and> lessf b c = Some True \<longrightarrow> lessf a c = Some True"
    unfolding strict_weak_ordering_on_def by blast
  from this [rule_format, OF assms(2,3,4)] assms(5,6) show ?thesis by simp
qed

lemma swo_negtrans:
  assumes "strict_weak_ordering_on S lessf" "a \<in> S" "b \<in> S" "c \<in> S"
    "lessf a b = Some False" "lessf b c = Some False"
  shows "lessf a c = Some False"
proof -
  from assms(1) have "\<forall>a \<in> S. \<forall>b \<in> S. \<forall>c \<in> S.
      lessf a b = Some False \<and> lessf b c = Some False \<longrightarrow> lessf a c = Some False"
    unfolding strict_weak_ordering_on_def by blast
  from this [rule_format, OF assms(2,3,4)] assms(5,6) show ?thesis by simp
qed

lemma swo_asym:
  assumes "strict_weak_ordering_on S lessf" "a \<in> S" "b \<in> S" "lessf a b = Some True"
  shows "lessf b a = Some False"
proof -
  from assms(1) have "\<forall>a \<in> S. lessf a a = Some False"
    unfolding strict_weak_ordering_on_def by blast
  with assms(2) have irrefl: "lessf a a = Some False" by simp
  from swo_total [OF assms(1,3,2)] show ?thesis
  proof
    assume "lessf b a = Some True"
    from swo_trans [OF assms(1,2,3,2) assms(4) this] irrefl show ?thesis by simp
  qed
qed

lemma insertionSort_inner_sorted:
  assumes "strict_weak_ordering_on S lessf" "x \<in> S" "set ys \<subseteq> S"
    and "sorted_wrt (\<lambda>a b. lessf a b = Some False) ys"
  shows "\<exists>zs. insertionSort_inner lessf x ys = Some zs \<and> mset zs = mset (x # ys)
              \<and> sorted_wrt (\<lambda>a b. lessf a b = Some False) zs"
  using assms(3,4)
proof (induction ys)
  case Nil
  then show ?case by simp
next
  case (Cons y ys)
  from Cons.prems have y: "y \<in> S" and ys: "set ys \<subseteq> S"
    and below: "\<forall>z \<in> set ys. lessf y z = Some False"
    and sorted: "sorted_wrt (\<lambda>a b. lessf a b = Some False) ys"
    by simp_all
  from swo_total [OF assms(1,2) y] show ?case
  proof
    assume lt: "lessf x y = Some True"
    from Cons.IH [OF ys sorted] obtain zs where
      zs: "insertionSort_inner lessf x ys = Some zs" "mset zs = mset (x # ys)"
          "sorted_wrt (\<lambda>a b. lessf a b = Some False) zs" by blast
    from zs(2) have "set zs = insert x (set ys)"
      by (metis mset_eq_setD list.simps(15))
    moreover have "lessf y x = Some False"
      by (rule swo_asym [OF assms(1,2) y lt])
    ultimately have "\<forall>z \<in> set zs. lessf y z = Some False"
      using below by simp
    with lt zs show ?thesis by simp
  next
    assume ge: "lessf x y = Some False"
    have "\<forall>z \<in> set ys. lessf x z = Some False"
    proof
      fix z assume z: "z \<in> set ys"
      with ys have "z \<in> S" by blast
      moreover from below z have "lessf y z = Some False" by simp
      ultimately show "lessf x z = Some False"
        by (rule swo_negtrans [OF assms(1,2) y _ ge])
    qed
    with ge below sorted show ?thesis by simp
  qed
qed

lemma insertionSort_outer_sorted:
  assumes "strict_weak_ordering_on S lessf"
  shows "set acc \<subseteq> S \<Longrightarrow> set xs \<subseteq> S \<Longrightarrow> sorted_wrt (\<lambda>a b. lessf a b = Some False) acc \<Longrightarrow>
         \<exists>zs. insertionSort_outer lessf acc xs = Some zs \<and> mset zs = mset acc + mset xs
              \<and> sorted_wrt (\<lambda>a b. lessf b a = Some False) zs"
proof (induction xs arbitrary: acc)
  case Nil
  then show ?case by (simp add: sorted_wrt_rev)
next
  case (Cons x xs)
  from Cons.prems have x: "x \<in> S" and xs: "set xs \<subseteq> S" by simp_all
  from insertionSort_inner_sorted [OF assms x Cons.prems(1) Cons.prems(3)] obtain acc' where
    acc': "insertionSort_inner lessf x acc = Some acc'" "mset acc' = mset (x # acc)"
          "sorted_wrt (\<lambda>a b. lessf a b = Some False) acc'" by blast
  from acc'(2) have "set acc' = insert x (set acc)"
    by (metis mset_eq_setD list.simps(15))
  with x Cons.prems(1) have sub: "set acc' \<subseteq> S" by simp
  from Cons.IH [OF sub xs acc'(3)] obtain zs where
    "insertionSort_outer lessf acc' xs = Some zs" "mset zs = mset acc' + mset xs"
    "sorted_wrt (\<lambda>a b. lessf b a = Some False) zs" by blast
  with acc' show ?case by simp
qed

lemma insertionSort_contract: "sort_Slice_contract insertionSort"
  unfolding sort_Slice_contract_def
proof (intro allI impI)
  fix x :: "'a list" and lessf
  assume "strict_weak_ordering_on (set x) lessf"
  from insertionSort_outer_sorted [OF this, of "[]" x]
  show "\<exists>zs. insertionSort x lessf = Some zs \<and> mset zs = mset x
             \<and> sorted_wrt (\<lambda>a b. lessf b a = Some False) zs"
    by (simp add: insertionSort_def)
qed

lemma swo_of_key:
  assumes "\<forall>a \<in> S. \<forall>b \<in> S. lessf a b = Some ((k a :: int) < k b)"
  shows "strict_weak_ordering_on S lessf"
  unfolding strict_weak_ordering_on_def using assms by auto

lemma NextActivation_Before_present:
  "sNextActivation a = Some t \<Longrightarrow> sNextActivation b = Some u \<Longrightarrow>
   NextActivation_Before a b = Some (t < u)"
  by (simp add: NextActivation_Before_def Before_def)

lemma NextActivation_After_present:
  "sNextActivation a = Some t \<Longrightarrow> sNextActivation b = Some u \<Longrightarrow>
   NextActivation_After a b = Some (u < t)"
  by (simp add: NextActivation_After_def After_def)

lemma NextActivation_Before_swo:
  assumes "\<forall>s \<in> set res. sNextActivation s \<noteq> None"
  shows "strict_weak_ordering_on (set res) NextActivation_Before"
proof (rule swo_of_key [where k = "\<lambda>s :: RepairSchedule. the (sNextActivation s)"], intro ballI)
  fix a b assume ab: "a \<in> set res" "b \<in> set res"
  from assms ab(1) obtain t where t: "sNextActivation a = Some t" by auto
  from assms ab(2) obtain u where u: "sNextActivation b = Some u" by auto
  from t u show "NextActivation_Before a b
                   = Some (the (sNextActivation a) < the (sNextActivation b))"
    by (simp add: NextActivation_Before_present)
qed

lemma NextActivation_After_swo:
  assumes "\<forall>s \<in> set res. sNextActivation s \<noteq> None"
  shows "strict_weak_ordering_on (set res) NextActivation_After"
proof (rule swo_of_key [where k = "\<lambda>s :: RepairSchedule. - the (sNextActivation s)"], intro ballI)
  fix a b assume ab: "a \<in> set res" "b \<in> set res"
  from assms ab(1) obtain t where t: "sNextActivation a = Some t" by auto
  from assms ab(2) obtain u where u: "sNextActivation b = Some u" by auto
  from t u show "NextActivation_After a b
                   = Some (- the (sNextActivation a) < - the (sNextActivation b))"
    by (simp add: NextActivation_After_present)
qed

lemma sortSchedules_ascending:
  assumes "sort_Slice_contract (sort_Slice ev)"
    and "\<forall>s \<in> set res. sNextActivation s \<noteq> None"
  shows "\<exists>zs. sortSchedules ev res ScheduleSortByNextActivation False = Some zs
              \<and> mset zs = mset res \<and> sorted_wrt activates_no_later zs"
proof -
  from assms(1) NextActivation_Before_swo [OF assms(2)] obtain zs where
    zs: "sort_Slice ev res NextActivation_Before = Some zs" "mset zs = mset res"
        "sorted_wrt (\<lambda>a b. NextActivation_Before b a = Some False) zs"
    unfolding sort_Slice_contract_def by blast
  from zs(2) have same: "set zs = set res" by (rule mset_eq_setD)
  have rel: "activates_no_later a b"
    if "a \<in> set zs" "b \<in> set zs" "NextActivation_Before b a = Some False" for a b
  proof -
    from assms(2) same that(1) obtain t where t: "sNextActivation a = Some t" by auto
    from assms(2) same that(2) obtain u where u: "sNextActivation b = Some u" by auto
    from that(3) have "\<not> u < t" by (simp add: NextActivation_Before_present [OF u t])
    with t u show ?thesis by (simp add: activates_no_later_def)
  qed
  have "sorted_wrt activates_no_later zs"
    by (rule sorted_wrt_mono_rel [OF _ zs(3)]) (rule rel)
  with zs show ?thesis by (simp add: sortSchedules_def)
qed

lemma sortSchedules_descending:
  assumes "sort_Slice_contract (sort_Slice ev)"
    and "\<forall>s \<in> set res. sNextActivation s \<noteq> None"
  shows "\<exists>zs. sortSchedules ev res ScheduleSortByNextActivation True = Some zs
              \<and> mset zs = mset res \<and> sorted_wrt (\<lambda>a b. activates_no_later b a) zs"
proof -
  from assms(1) NextActivation_After_swo [OF assms(2)] obtain zs where
    zs: "sort_Slice ev res NextActivation_After = Some zs" "mset zs = mset res"
        "sorted_wrt (\<lambda>a b. NextActivation_After b a = Some False) zs"
    unfolding sort_Slice_contract_def by blast
  from zs(2) have same: "set zs = set res" by (rule mset_eq_setD)
  have rel: "activates_no_later b a"
    if "a \<in> set zs" "b \<in> set zs" "NextActivation_After b a = Some False" for a b
  proof -
    from assms(2) same that(1) obtain t where t: "sNextActivation a = Some t" by auto
    from assms(2) same that(2) obtain u where u: "sNextActivation b = Some u" by auto
    from that(3) have "\<not> t < u" by (simp add: NextActivation_After_present [OF u t])
    with t u show ?thesis by (simp add: activates_no_later_def)
  qed
  have "sorted_wrt (\<lambda>a b. activates_no_later b a) zs"
    by (rule sorted_wrt_mono_rel [OF _ zs(3)]) (rule rel)
  with zs show ?thesis by (simp add: sortSchedules_def)
qed

text \<open>
  Claim C4.  Let \<^verbatim>\<open>sort.Slice\<close> keep its documented contract, and let every schedule of
  the list carry a next activation.  Then \<^verbatim>\<open>sortSchedules\<close> by next activation does not
  panic and leaves a rearrangement of the list (the same schedules, each as often as
  before) in which the next activations never decrease, or never increase if the reverse
  flag is set.  Equal next activations are allowed; their relative order is left open.
\<close>

theorem sortSchedules_by_next_activation:
  "sort_Slice_contract (sort_Slice ev) \<and> (\<forall>s \<in> set res. sNextActivation s \<noteq> None) \<longrightarrow>
     (\<exists>zs. sortSchedules ev res ScheduleSortByNextActivation False = Some zs
            \<and> mset zs = mset res \<and> sorted_wrt activates_no_later zs)
     \<and> (\<exists>zs. sortSchedules ev res ScheduleSortByNextActivation True = Some zs
            \<and> mset zs = mset res \<and> sorted_wrt (\<lambda>a b. activates_no_later b a) zs)"
  using sortSchedules_ascending [of ev res] sortSchedules_descending [of ev res] by blast

lemmas sort_eval = sortSchedules_def insertionSort_def NextActivation_Before_def
  NextActivation_After_def Before_def After_def example_schedule_def
  ScheduleSortByNextActivation_def example_env_def

theorem sortSchedules_by_next_activation_witness:
  "sort_Slice_contract (sort_Slice (example_env flag_defaults not_found))
   \<and> sortSchedules (example_env flag_defaults not_found)
     [example_schedule ''a'' (Some 3), example_schedule ''b'' (Some 1),
      example_schedule ''c'' (Some 3), example_schedule ''d'' (Some 2)]
     ScheduleSortByNextActivation False
   = Some [example_schedule ''b'' (Some 1), example_schedule ''d'' (Some 2),
           example_schedule ''a'' (Some 3), example_schedule ''c'' (Some 3)]
   \<and> sortSchedules (example_env flag_defaults not_found)
     [example_schedule ''a'' (Some 3), example_schedule ''b'' (Some 1),
      example_schedule ''c'' (Some 3), example_schedule ''d'' (Some 2)]
     ScheduleSortByNextActivation True
   = Some [example_schedule ''a'' (Some 3), example_schedule ''c'' (Some 3),
           example_schedule ''d'' (Some 2), example_schedule ''b'' (Some 1)]"
proof -
  have contract: "sort_Slice_contract (sort_Slice (example_env flag_defaults not_found))"
    by (simp add: example_env_def insertionSort_contract)
  have present: "\<forall>s \<in> set [example_schedule ''a'' (Some 3), example_schedule ''b'' (Some 1),
      example_schedule ''c'' (Some 3), example_schedule ''d'' (Some 2)].
      sNextActivation s \<noteq> None"
    by (simp add: example_schedule_def)
  from sortSchedules_by_next_activation
    [of "example_env flag_defaults not_found"
        "[example_schedule ''a'' (Some 3), example_schedule ''b'' (Some 1),
          example_schedule ''c'' (Some 3), example_schedule ''d'' (Some 2)]"]
    contract present
  show ?thesis by (simp add: sort_eval)
qed

text \<open>
  Without the precondition the comparison can fail: under insertion sort,
  \<^verbatim>\<open>sortSchedules\<close> panics as soon as a schedule that has no next activation is
  compared.  A slice of one schedule is never compared.
\<close>

lemma sortSchedules_panics_on_missing_activation:
  "sortSchedules (example_env flag_defaults not_found)
     [example_schedule ''a'' (Some 3), example_schedule ''b'' None]
     ScheduleSortByNextActivation False = None
   \<and> sortSchedules (example_env flag_defaults not_found)
        [example_schedule ''b'' None] ScheduleSortByNextActivation False
      = Some [example_schedule ''b'' None]"
  by (simp add: sort_eval)

lemma sortSchedules_other_key:
  "sortBy \<noteq> ScheduleSortByNextActivation \<Longrightarrow> sortSchedules ev res sortBy reverse = Some res"
  by (simp add: sortSchedules_def)

end
